theory Spec2Isabelle
  imports Main "HOL-Library.AList" "HOL-Library.Multiset" "HOL-Library.Word"
begin

section \<open>Python values and exceptions\<close>

text \<open>
  The values that flow through the configuration form and the serializer.  A Python
  \<open>str\<close> is a list of 8-bit characters, that is, text whose code points are below 256.
  A Python \<open>float\<close> is an IEEE double, represented by its 64 bits; its arithmetic is not
  modelled.  A \<open>pathlib.Path\<close> object in the data is represented by the string it was
  built from; how that string is read depends on the platform.  A dictionary is an
  association list in insertion order with string keys, as \<open>model_dump\<close> produces them.
  \<open>PObj\<close> stands for any other object (an enum member, a nested model), identified by a
  label.
\<close>

type_synonym float64 = "64 word"

datatype pyval =
    PNone
  | PBool bool
  | PInt int
  | PFloat float64
  | PStr string
  | PPath string
  | PList "pyval list"
  | PTuple "pyval list"
  | PDict "(string \<times> pyval) list"
  | PObj string

type_synonym pydict = "(string \<times> pyval) list"

text \<open>
  Exceptions are values.  The message of a \<open>ValueError\<close> is kept in structured form;
  the text that \<open>json.JSONDecodeError\<close> contributes to a message is left out.
\<close>

datatype value_error =
    UnknownMode string
  | NotInSubpath
  | InvalidJSONFor string
  | ExpectsJSONObject string
  | InvalidFlowOptionsJSON
  | FlowOptionsMustBeObject
  | InvalidLiteral

datatype error =
    TypeError
  | IndexError
  | OverflowError
  | ValueError value_error
  | RuntimeError string
  | OtherError string

subsection \<open>Decimal rendering of integers (\<open>str(int)\<close>, f-strings)\<close>

definition digit_char :: "nat \<Rightarrow> char" where
  "digit_char n = ''0123456789'' ! (n mod 10)"

fun str_nat :: "nat \<Rightarrow> string" where
  "str_nat n = (if n < 10 then [digit_char n] else str_nat (n div 10) @ [digit_char n])"

declare str_nat.simps [simp del]

definition str_int :: "int \<Rightarrow> string" where
  "str_int i = (if i < 0 then ''-'' @ str_nat (nat (- i)) else str_nat (nat i))"

section \<open>pathlib\<close>

text \<open>
  \<open>pathlib.Path\<close> is \<open>PosixPath\<close> on a POSIX platform and \<open>WindowsPath\<close> on Windows; the
  flavour decides how a text is parsed, when a path is absolute and what
  \<open>relative_to\<close> returns.
\<close>

datatype flavour = Posix | Windows

subsection \<open>PurePosixPath\<close>

text \<open>
  A POSIX path is represented by the text it was built from.  The functions are written
  after Python 3.12, which parses lazily; Python 3.11 parses when the path is built and
  gives the same parts, the same texts and the same answers.

  \<open>posixpath.splitroot\<close> (the drive is always empty): no leading slash gives a relative
  path; exactly two leading slashes are kept as the root \<open>//\<close>; one, or three and more,
  give the root \<open>/\<close>.
\<close>

definition posix_splitroot :: "string \<Rightarrow> string \<times> string" where
  "posix_splitroot p =
     (if take 1 p \<noteq> ''/'' then ('''', p)
      else if take 1 (drop 1 p) \<noteq> ''/'' \<or> take 1 (drop 2 p) = ''/'' then (''/'', drop 1 p)
      else (take 2 p, drop 2 p))"

text \<open>\<open>str.split(sep)\<close> for a one-character separator: \<open>''a//b''\<close> gives three pieces.\<close>

fun split_on :: "char \<Rightarrow> string \<Rightarrow> string list" where
  "split_on c [] = [[]]"
| "split_on c (x # xs) =
     (if x = c then [] # split_on c xs
      else (case split_on c xs of [] \<Rightarrow> [[x]] | w # ws \<Rightarrow> (x # w) # ws))"

text \<open>\<open>'/'.join(parts)\<close>.\<close>

fun sep_join :: "string list \<Rightarrow> string" where
  "sep_join [] = []"
| "sep_join [p] = p"
| "sep_join (p # q # ps) = p @ ''/'' @ sep_join (q # ps)"

text \<open>
  \<open>PurePath._parse_path\<close>: the root and the tail, the tail without empty and \<open>.\<close>
  components.
\<close>

definition parse_path :: "string \<Rightarrow> string \<times> string list" where
  "parse_path path =
     (if path = [] then ('''', [])
      else (case posix_splitroot path of
              (root, rel) \<Rightarrow> (root, filter (\<lambda>x. x \<noteq> [] \<and> x \<noteq> ''.'') (split_on CHR ''/'' rel))))"

definition format_parsed_parts :: "string \<Rightarrow> string list \<Rightarrow> string" where
  "format_parsed_parts root tail = (if root \<noteq> [] then root @ sep_join tail else sep_join tail)"

text \<open>\<open>str(path)\<close>: the normalised text, \<open>.\<close> for the empty path.\<close>

definition posix_str :: "string \<Rightarrow> string" where
  "posix_str raw =
     (case parse_path raw of
        (root, tail) \<Rightarrow>
          (let s = format_parsed_parts root tail in if s = [] then ''.'' else s))"

text \<open>\<open>PurePosixPath.is_absolute\<close>: the raw text starts with a slash.\<close>

definition posix_is_absolute :: "string \<Rightarrow> bool" where
  "posix_is_absolute raw = (take 1 raw = ''/'')"

text \<open>
  \<open>posixpath.join\<close> and the text of a path built from several segments
  (\<open>Path(*segments)\<close>, \<open>Path(a) / b\<close>).
\<close>

fun posix_join :: "string \<Rightarrow> string list \<Rightarrow> string" where
  "posix_join path [] = path"
| "posix_join path (b # bs) =
     posix_join
       (if take 1 b = ''/'' then b
        else if path = [] \<or> last path = CHR ''/'' then path @ b
        else path @ ''/'' @ b) bs"

definition with_segments :: "string list \<Rightarrow> string" where
  "with_segments paths = (case paths of [] \<Rightarrow> [] | p # ps \<Rightarrow> posix_join p ps)"

text \<open>
  \<open>is_relative_to\<close>: the other path equals this one or is one of its parents, that is,
  same root and the other tail a prefix of this tail.  \<open>relative_to\<close> (without
  \<open>walk_up\<close>) raises \<open>ValueError\<close> otherwise and else returns the path of the remaining
  components.
\<close>

definition posix_is_relative_to :: "string \<Rightarrow> string \<Rightarrow> bool" where
  "posix_is_relative_to self other =
     (case parse_path self of
        (root, tail) \<Rightarrow>
          (case parse_path other of
             (oroot, otail) \<Rightarrow> oroot = root \<and> take (length otail) tail = otail))"

definition posix_relative_to :: "string \<Rightarrow> string \<Rightarrow> error + string" where
  "posix_relative_to self other =
     (if posix_is_relative_to self other
      then Inr (with_segments (drop (length (snd (parse_path other))) (snd (parse_path self))))
      else Inl (ValueError NotInSubpath))"


text \<open>The tail that \<open>_parse_path\<close> reads from the text after the root.\<close>

definition tail_of :: "string \<Rightarrow> string list" where
  "tail_of s = filter (\<lambda>x. x \<noteq> [] \<and> x \<noteq> ''.'') (split_on CHR ''/'' s)"

subsection \<open>PureWindowsPath\<close>

text \<open>
  A Windows path as Python 3.11 has it: the drive, the root and the parts that
  \<open>parse_parts\<close> reads when the path is built.  (Python 3.12 parses and joins
  differently; the two agree on paths none of whose components looks like a drive.)
  The separator is the backslash, and a slash is read as one.
\<close>

type_synonym win_path = "string \<times> string \<times> string list"

definition win_sep :: char where
  "win_sep = CHR 0x5C"

definition replace_altsep :: "string \<Rightarrow> string" where
  "replace_altsep part = map (\<lambda>c. if c = CHR ''/'' then win_sep else c) part"

definition drive_letters :: "char set" where
  "drive_letters = set ''abcdefghijklmnopqrstuvwxyzABCDEFGHIJKLMNOPQRSTUVWXYZ''"

text \<open>\<open>s.find(c, start)\<close>, with \<open>None\<close> for \<open>-1\<close>, and \<open>s.startswith(prefix)\<close>.\<close>

fun index_of :: "char \<Rightarrow> string \<Rightarrow> nat option" where
  "index_of c [] = None"
| "index_of c (x # xs) = (if x = c then Some 0 else map_option Suc (index_of c xs))"

definition find_from :: "char \<Rightarrow> nat \<Rightarrow> string \<Rightarrow> nat option" where
  "find_from c start s = map_option (\<lambda>i. start + i) (index_of c (drop start s))"

definition startswith :: "string \<Rightarrow> string \<Rightarrow> bool" where
  "startswith s prefix = (take (length prefix) s = prefix)"

text \<open>\<open>_WindowsFlavour._split_extended_path\<close>: the prefix of an extended path, if there is one.\<close>

definition split_extended_path :: "string \<Rightarrow> string \<times> string" where
  "split_extended_path s =
     (if startswith s [win_sep, win_sep, CHR ''?'', win_sep] then
        (let prefix = take 4 s; s1 = drop 4 s in
         if startswith s1 (''UNC'' @ [win_sep]) then (prefix @ take 3 s1, win_sep # drop 3 s1)
         else (prefix, s1))
      else ([], s))"

text \<open>
  \<open>_WindowsFlavour.splitroot\<close>: the drive (a letter and a colon, or the host and share
  of a UNC path), the root and the rest.
\<close>

definition win_splitroot :: "string \<Rightarrow> string \<times> string \<times> string" where
  "win_splitroot part0 =
     (let (prefix, part) =
            (if take 1 (drop 1 part0) = [win_sep] \<and> take 1 part0 = [win_sep]
             then split_extended_path part0 else ([], part0));
          first = take 1 part; second = take 1 (drop 1 part); third = take 1 (drop 2 part);
          unc = (if second = [win_sep] \<and> first = [win_sep] \<and> third \<noteq> [win_sep] then
                   (case find_from win_sep 2 part of
                      None \<Rightarrow> None
                    | Some index \<Rightarrow>
                        (let found = find_from win_sep (index + 1) part in
                         if found = Some (index + 1) then None
                         else (let index2 = (case found of None \<Rightarrow> length part | Some i \<Rightarrow> i) in
                               Some (if prefix \<noteq> []
                                     then (prefix @ drop 1 (take index2 part), [win_sep],
                                           drop (index2 + 1) part)
                                     else (take index2 part, [win_sep], drop (index2 + 1) part)))))
                 else None)
      in (case unc of
            Some result \<Rightarrow> result
          | None \<Rightarrow>
              (let has_drive = (second = '':'' \<and> first \<noteq> [] \<and> hd first \<in> drive_letters);
                   drv = (if has_drive then take 2 part else []);
                   part1 = (if has_drive then drop 2 part else part);
                   first1 = (if has_drive then third else first)
               in if first1 = [win_sep]
                  then (prefix @ drv, first1, dropWhile (\<lambda>c. c = win_sep) part1)
                  else (prefix @ drv, [], part1))))"

text \<open>
  \<open>_Flavour.parse_parts\<close>: the loop over the reversed parts, which stops at the first
  part with a drive or a root; when that part has a root and no drive, the inner loop
  looks for a drive in the parts before it.
\<close>

fun win_drive_of :: "string list \<Rightarrow> string" where
  "win_drive_of [] = []"
| "win_drive_of (part # it) =
     (if part = [] then win_drive_of it
      else (let drv = fst (win_splitroot (replace_altsep part)) in
            if drv \<noteq> [] then drv else win_drive_of it))"

fun win_parse_reversed :: "string list \<Rightarrow> string list \<Rightarrow> string \<times> string \<times> string list" where
  "win_parse_reversed [] parsed = ([], [], parsed)"
| "win_parse_reversed (part # it) parsed =
     (if part = [] then win_parse_reversed it parsed
      else (case win_splitroot (replace_altsep part) of
              (drv, root, rel) \<Rightarrow>
                (let parsed1 =
                       parsed @ filter (\<lambda>x. x \<noteq> [] \<and> x \<noteq> ''.'') (rev (split_on win_sep rel)) in
                 if drv \<noteq> [] \<or> root \<noteq> []
                 then (if drv = [] then win_drive_of it else drv, root, parsed1)
                 else win_parse_reversed it parsed1)))"

definition win_parse_parts :: "string list \<Rightarrow> win_path" where
  "win_parse_parts parts =
     (case win_parse_reversed (rev parts) [] of
        (drv, root, parsed) \<Rightarrow>
          (drv, root, rev (if drv \<noteq> [] \<or> root \<noteq> [] then parsed @ [drv @ root] else parsed)))"

text \<open>\<open>WindowsPath(raw)\<close>, the path built from one string.\<close>

definition WindowsPath :: "string \<Rightarrow> win_path" where
  "WindowsPath raw = win_parse_parts [raw]"

fun win_join :: "string list \<Rightarrow> string" where
  "win_join [] = []"
| "win_join [p] = p"
| "win_join (p # q # ps) = p @ win_sep # win_join (q # ps)"

definition win_format_parsed_parts :: "win_path \<Rightarrow> string" where
  "win_format_parsed_parts p =
     (case p of
        (drv, root, parts) \<Rightarrow>
          if drv \<noteq> [] \<or> root \<noteq> [] then drv @ root @ win_join (drop 1 parts) else win_join parts)"

definition win_str :: "win_path \<Rightarrow> string" where
  "win_str p = (let s = win_format_parsed_parts p in if s = [] then ''.'' else s)"

text \<open>\<open>is_absolute\<close>: the path has a root and a drive.\<close>

definition win_is_absolute :: "win_path \<Rightarrow> bool" where
  "win_is_absolute p = (case p of (drv, root, parts) \<Rightarrow> root \<noteq> [] \<and> drv \<noteq> [])"

text \<open>\<open>str.lower()\<close> on a character, which \<open>casefold_parts\<close> applies to every part.\<close>

definition lower_char :: "char \<Rightarrow> char" where
  "lower_char c =
     (let n = of_char c :: nat in
      if (65 \<le> n \<and> n \<le> 90) \<or> (192 \<le> n \<and> n \<le> 214) \<or> (216 \<le> n \<and> n \<le> 222)
      then char_of (n + 32) else c)"

definition casefold_parts :: "string list \<Rightarrow> string list" where
  "casefold_parts parts = map (map lower_char) parts"

text \<open>
  \<open>relative_to\<close>: the parts of the other path are parsed again; the drive and the root
  count as two parts; the comparison ignores case.  The result keeps the remaining
  parts as they are, under no drive and no root.
\<close>

definition win_relative_to :: "win_path \<Rightarrow> win_path \<Rightarrow> error + win_path" where
  "win_relative_to self other =
     (case self of
        (drv, root, parts) \<Rightarrow>
          (case win_parse_parts (snd (snd other)) of
             (to_drv, to_root, to_parts) \<Rightarrow>
               (let abs_parts = (if root \<noteq> [] then [drv, root] @ drop 1 parts else parts);
                    to_abs_parts =
                      (if to_root \<noteq> [] then [to_drv, to_root] @ drop 1 to_parts else to_parts);
                    n = length to_abs_parts
                in if (if n = 0 then root \<noteq> [] \<or> drv \<noteq> []
                       else casefold_parts (take n abs_parts) \<noteq> casefold_parts to_abs_parts)
                   then Inl (ValueError NotInSubpath)
                   else Inr ([], if n = 1 then root else [], drop n abs_parts))))"

subsection \<open>Path\<close>

text \<open>
  What the program asks of a path built from a string: \<open>str(Path(raw))\<close>,
  \<open>Path(raw).is_absolute()\<close>, the text \<open>str(Path(candidate).relative_to(Path(root)))\<close>
  or the \<open>ValueError\<close> of \<open>relative_to\<close>, and \<open>is_relative_to\<close>, which is true when
  \<open>relative_to\<close> does not raise.
\<close>

definition path_str :: "flavour \<Rightarrow> string \<Rightarrow> string" where
  "path_str fl raw = (case fl of Posix \<Rightarrow> posix_str raw | Windows \<Rightarrow> win_str (WindowsPath raw))"

definition is_absolute :: "flavour \<Rightarrow> string \<Rightarrow> bool" where
  "is_absolute fl raw =
     (case fl of Posix \<Rightarrow> posix_is_absolute raw | Windows \<Rightarrow> win_is_absolute (WindowsPath raw))"

definition relative_to :: "flavour \<Rightarrow> string \<Rightarrow> string \<Rightarrow> error + string" where
  "relative_to fl candidate root =
     (case fl of
        Posix \<Rightarrow>
          (case posix_relative_to candidate root of
             Inl e \<Rightarrow> Inl e
           | Inr rel \<Rightarrow> Inr (posix_str rel))
      | Windows \<Rightarrow>
          (case win_relative_to (WindowsPath candidate) (WindowsPath root) of
             Inl e \<Rightarrow> Inl e
           | Inr rel \<Rightarrow> Inr (win_str rel)))"

definition is_relative_to :: "flavour \<Rightarrow> string \<Rightarrow> string \<Rightarrow> bool" where
  "is_relative_to fl candidate root =
     (case relative_to fl candidate root of Inl e \<Rightarrow> False | Inr rel \<Rightarrow> True)"

section \<open>model\_utils\<close>

text \<open>
  A configuration object, by the first of the attributes \<open>model_dump\<close>, \<open>dict\<close> and
  \<open>__dict__\<close> it has, with the dictionary that attribute yields; \<open>NoDict\<close> is an
  object with none of them.
\<close>

datatype model_obj =
    ModelDump pydict
  | ModelV1Dict pydict
  | PlainVars pydict
  | NoDict

fun model_to_dict :: "model_obj \<Rightarrow> error + pydict" where
  "model_to_dict (ModelDump d) = Inr d"
| "model_to_dict (ModelV1Dict d) = Inr d"
| "model_to_dict (PlainVars d) = Inr d"
| "model_to_dict NoDict = Inl TypeError"

section \<open>serialization\<close>

text \<open>
  \<open>RELATIVE_PATH_FIELDS\<close> is a set in the source; the loop over it is modelled in one
  order; the theorems on serialization show that the order does not matter.
\<close>

definition RELATIVE_PATH_FIELDS :: "string list" where
  "RELATIVE_PATH_FIELDS = [''output_root'', ''final_results'', ''center'']"

primrec convert_paths_to_strings :: "flavour \<Rightarrow> pyval \<Rightarrow> pyval" where
  "convert_paths_to_strings fl PNone = PNone"
| "convert_paths_to_strings fl (PBool b) = PBool b"
| "convert_paths_to_strings fl (PInt i) = PInt i"
| "convert_paths_to_strings fl (PFloat f) = PFloat f"
| "convert_paths_to_strings fl (PStr s) = PStr s"
| "convert_paths_to_strings fl (PPath p) = PStr (path_str fl p)"
| "convert_paths_to_strings fl (PList vs) = PList (map (convert_paths_to_strings fl) vs)"
| "convert_paths_to_strings fl (PTuple vs) = PList (map (convert_paths_to_strings fl) vs)"
| "convert_paths_to_strings fl (PDict kvs) = PDict (map (map_prod id (convert_paths_to_strings fl)) kvs)"
| "convert_paths_to_strings fl (PObj n) = PObj n"

text \<open>The conversion applied to a dictionary, and the values it leaves as they are.\<close>

definition converted :: "flavour \<Rightarrow> pydict \<Rightarrow> pydict" where
  "converted fl d = map (map_prod id (convert_paths_to_strings fl)) d"


text \<open>
  \<open>_maybe_relative\<close> under a path flavour: \<open>root_path\<close> is \<open>None\<close> or a path, given by the
  text it was built from.  The only exception that \<open>relative_to\<close> raises is the \<open>ValueError\<close>
  that is caught.
\<close>

fun is_str :: "pyval \<Rightarrow> bool" where
  "is_str (PStr s) = True"
| "is_str v = False"

definition maybe_relative :: "flavour \<Rightarrow> pyval \<Rightarrow> string option \<Rightarrow> bool \<Rightarrow> pyval" where
  "maybe_relative fl path_value root_path prefer_relative =
     (if \<not> prefer_relative \<or> root_path = None \<or> \<not> is_str path_value then path_value
      else (case (root_path, path_value) of
              (Some root, PStr candidate) \<Rightarrow>
                if \<not> is_absolute fl candidate \<or> \<not> is_absolute fl root then path_value
                else (case relative_to fl candidate root of
                        Inr rel \<Rightarrow> PStr rel
                      | Inl e \<Rightarrow> path_value)
            | _ \<Rightarrow> path_value))"

text \<open>
  The loop over \<open>RELATIVE_PATH_FIELDS\<close>: a field that is a key of the data is
  rewritten in place.
\<close>

definition rewrite_field ::
  "flavour \<Rightarrow> string option \<Rightarrow> bool \<Rightarrow> string \<Rightarrow> pydict \<Rightarrow> pydict" where
  "rewrite_field fl root_path prefer_relative field_name data =
     (case map_of data field_name of
        None \<Rightarrow> data
      | Some v \<Rightarrow> AList.update field_name (maybe_relative fl v root_path prefer_relative) data)"

definition root_of :: "pydict \<Rightarrow> string option" where
  "root_of data =
     (case map_of data ''root'' of
        Some (PStr root_raw) \<Rightarrow> if root_raw \<noteq> [] then Some root_raw else None
      | _ \<Rightarrow> None)"

text \<open>
  The data that \<open>serialize_config_to_yaml\<close> hands to \<open>yaml.safe_dump\<close>
  (with \<open>sort_keys=False\<close>, so in this order).
\<close>

definition yaml_data :: "flavour \<Rightarrow> pydict \<Rightarrow> bool \<Rightarrow> pydict" where
  "yaml_data fl dumped prefer_relative =
     (let data = converted fl dumped;
          root_path = root_of data;
          data1 = fold (rewrite_field fl root_path prefer_relative) RELATIVE_PATH_FIELDS data
      in (case map_of data1 ''flow_options'' of
            Some (PStr flow_options) \<Rightarrow>
              AList.update ''flow_options''
                (maybe_relative fl (PStr flow_options) root_path prefer_relative) data1
          | _ \<Rightarrow> data1))"


text \<open>
  The effects a caller can observe.  Creating the parent directory, opening the file
  and dumping may fail; \<open>write_error\<close> is that failure, if any.
\<close>

datatype signal = LogEmitted string | RunStarted | RunFinished int | RunFailed string

datatype effect =
    MkTmpDir string
  | RmTmpDir string
  | WriteYaml string pydict
  | ProcStart string "string list"
  | ProcKill
  | Emit signal

definition serialize_config_to_yaml ::
  "flavour \<Rightarrow> error option \<Rightarrow> model_obj \<Rightarrow> string \<Rightarrow> bool \<Rightarrow> effect list \<times> error option" where
  "serialize_config_to_yaml fl write_error config path prefer_relative =
     (case model_to_dict config of
        Inl e \<Rightarrow> ([], Some e)
      | Inr dumped \<Rightarrow>
          (case write_error of
             Some e \<Rightarrow> ([], Some e)
           | None \<Rightarrow> ([WriteYaml (path_str fl path) (yaml_data fl dumped prefer_relative)], None)))"

section \<open>Programs with effects and exceptions\<close>

text \<open>
  A statement sequence that changes a state, emits observable events and may raise: from
  a state it yields the events so far, the value or the exception, and the state reached.
\<close>

type_synonym ('e, 's, 'a) prog = "'s \<Rightarrow> 'e list \<times> (error + 'a) \<times> 's"

definition ret :: "'a \<Rightarrow> ('e, 's, 'a) prog" where
  "ret x s = ([], Inr x, s)"

definition raise :: "error \<Rightarrow> ('e, 's, 'a) prog" where
  "raise e s = ([], Inl e, s)"

definition emit :: "'e \<Rightarrow> ('e, 's, unit) prog" where
  "emit ev s = ([ev], Inr (), s)"

definition modify :: "('s \<Rightarrow> 's) \<Rightarrow> ('e, 's, unit) prog" where
  "modify f s = ([], Inr (), f s)"

definition bind :: "('e, 's, 'a) prog \<Rightarrow> ('a \<Rightarrow> ('e, 's, 'b) prog) \<Rightarrow> ('e, 's, 'b) prog" where
  "bind m f s =
     (case m s of
        (t, Inl e, s') \<Rightarrow> (t, Inl e, s')
      | (t, Inr x, s') \<Rightarrow> (case f x s' of (t', r, s'') \<Rightarrow> (t @ t', r, s'')))"

section \<open>local\_runner: the runner script\<close>

definition newline :: string where
  "newline = [CHR 0x0A]"

definition RUNNER_SCRIPT :: string where
  \<open>RUNNER_SCRIPT = newline @ concat (map (\<lambda>l. l @ newline) [
      ''import sys'',
      '''',
      ''from pyflowreg.session.config import SessionConfig'',
      ''from pyflowreg.session.stage1_compensate import run_stage1'',
      ''from pyflowreg.session.stage2_between_avgs import run_stage2'',
      ''from pyflowreg.session.stage3_valid_mask import run_stage3'',
      '''',
      '''',
      ''def main() -> None:'',
      ''    cfg_path = sys.argv[1]'',
      ''    mode = sys.argv[2]'',
      ''    config = SessionConfig.from_file(cfg_path)'',
      ''    print(f"Loaded config: {cfg_path}", flush=True)'',
      '''',
      ''    if mode == "all":'',
      ''        print("Running Stage1", flush=True)'',
      ''        run_stage1(config)'',
      ''        print("Running Stage2", flush=True)'',
      ''        middle_idx, avg, displacements = run_stage2(config)'',
      ''        del avg'',
      ''        print(f"Running Stage3 (middle_idx={middle_idx})", flush=True)'',
      ''        run_stage3(config, middle_idx, displacements)'',
      ''        print("Completed Stage1 -> Stage2 -> Stage3", flush=True)'',
      ''        return'',
      '''',
      ''    if mode == "stage1":'',
      ''        run_stage1(config)'',
      ''        print("Completed Stage1", flush=True)'',
      ''        return'',
      '''',
      ''    if mode == "stage2":'',
      ''        middle_idx, avg, displacements = run_stage2(config)'',
      ''        del avg, displacements'',
      ''        print(f"Completed Stage2 (middle_idx={middle_idx})", flush=True)'',
      ''        return'',
      '''',
      ''    if mode == "stage3":'',
      ''        middle_idx, avg, displacements = run_stage2(config)'',
      ''        del avg'',
      ''        run_stage3(config, middle_idx, displacements)'',
      ''        print("Completed Stage3 (after Stage2 preload)", flush=True)'',
      ''        return'',
      '''',
      ''    raise ValueError(f"Unknown mode: {mode}")'',
      '''',
      '''',
      ''if __name__ == "__main__":'',
      ''    main()''])\<close>

text \<open>
  What the script calls from the pyflowreg library, as it acts on the world \<open>'w\<close> (the
  files of the session): loading the configuration, and the three stages.  A stage may
  raise after changing the world.
\<close>

record ('c, 'a, 'd, 'w) pyflowreg =
  from_file :: "string \<Rightarrow> 'w \<Rightarrow> error + 'c"
  run_stage1 :: "'c \<Rightarrow> 'w \<Rightarrow> (error + unit) \<times> 'w"
  run_stage2 :: "'c \<Rightarrow> 'w \<Rightarrow> (error + int \<times> 'a \<times> 'd) \<times> 'w"
  run_stage3 :: "'c \<Rightarrow> int \<Rightarrow> 'd \<Rightarrow> 'w \<Rightarrow> (error + unit) \<times> 'w"

datatype ('c, 'd) script_event =
    Printed string
  | Stage1Call 'c
  | Stage2Call 'c
  | Stage3Call 'c int 'd

definition print :: "string \<Rightarrow> (('c, 'd) script_event, 'w, unit) prog" where
  "print s = emit (Printed s)"

definition load_config ::
  "('c, 'a, 'd, 'w) pyflowreg \<Rightarrow> string \<Rightarrow> (('c, 'd) script_event, 'w, 'c) prog" where
  "load_config L cfg_path w = ([], from_file L cfg_path w, w)"

definition stage1 ::
  "('c, 'a, 'd, 'w) pyflowreg \<Rightarrow> 'c \<Rightarrow> (('c, 'd) script_event, 'w, unit) prog" where
  "stage1 L config w = (case run_stage1 L config w of (r, w') \<Rightarrow> ([Stage1Call config], r, w'))"

definition stage2 ::
  "('c, 'a, 'd, 'w) pyflowreg \<Rightarrow> 'c \<Rightarrow> (('c, 'd) script_event, 'w, int \<times> 'a \<times> 'd) prog" where
  "stage2 L config w = (case run_stage2 L config w of (r, w') \<Rightarrow> ([Stage2Call config], r, w'))"

definition stage3 ::
  "('c, 'a, 'd, 'w) pyflowreg \<Rightarrow> 'c \<Rightarrow> int \<Rightarrow> 'd \<Rightarrow> (('c, 'd) script_event, 'w, unit) prog" where
  "stage3 L config middle_idx displacements w =
     (case run_stage3 L config middle_idx displacements w of
        (r, w') \<Rightarrow> ([Stage3Call config middle_idx displacements], r, w'))"

text \<open>The body of \<open>main\<close> after the two reads of \<open>sys.argv\<close>.\<close>

definition run_mode ::
  "('c, 'a, 'd, 'w) pyflowreg \<Rightarrow> string \<Rightarrow> string \<Rightarrow> (('c, 'd) script_event, 'w, unit) prog" where
  "run_mode L cfg_path mode =
     bind (load_config L cfg_path) (\<lambda>config.
     bind (print (''Loaded config: '' @ cfg_path)) (\<lambda>_.
     if mode = ''all'' then
       bind (print ''Running Stage1'') (\<lambda>_.
       bind (stage1 L config) (\<lambda>_.
       bind (print ''Running Stage2'') (\<lambda>_.
       bind (stage2 L config) (\<lambda>(middle_idx, avg, displacements).
       bind (print (''Running Stage3 (middle_idx='' @ str_int middle_idx @ '')'')) (\<lambda>_.
       bind (stage3 L config middle_idx displacements) (\<lambda>_.
       print ''Completed Stage1 -> Stage2 -> Stage3''))))))
     else if mode = ''stage1'' then
       bind (stage1 L config) (\<lambda>_.
       print ''Completed Stage1'')
     else if mode = ''stage2'' then
       bind (stage2 L config) (\<lambda>(middle_idx, avg, displacements).
       print (''Completed Stage2 (middle_idx='' @ str_int middle_idx @ '')''))
     else if mode = ''stage3'' then
       bind (stage2 L config) (\<lambda>(middle_idx, avg, displacements).
       bind (stage3 L config middle_idx displacements) (\<lambda>_.
       print ''Completed Stage3 (after Stage2 preload)''))
     else raise (ValueError (UnknownMode mode))))"

definition main ::
  "('c, 'a, 'd, 'w) pyflowreg \<Rightarrow> string list \<Rightarrow> (('c, 'd) script_event, 'w, unit) prog" where
  "main L argv =
     (case argv of
        _ # cfg_path # mode # _ \<Rightarrow> run_mode L cfg_path mode
      | _ \<Rightarrow> raise IndexError)"




text \<open>
  The interpreter's command line: \<open>-u\<close> is an option, \<open>-c\<close> takes the program text, and
  what follows becomes \<open>sys.argv[1:]\<close> after \<open>sys.argv[0] = '-c'\<close>.
\<close>

fun python_argv :: "string list \<Rightarrow> (string \<times> string list) option" where
  "python_argv [] = None"
| "python_argv (a # as) =
     (if a = ''-u'' then python_argv as
      else if a = ''-c'' then (case as of [] \<Rightarrow> None | script # rest \<Rightarrow> Some (script, ''-c'' # rest))
      else None)"

section \<open>local\_runner: LocalRunner\<close>

datatype process_state = NotRunning | Starting | Running

record qprocess =
  program :: string
  arguments :: "string list"
  pstate :: process_state

record local_runner =
  process :: "qprocess option"
  tmpdir :: "string option"

text \<open>
  What the host decides during \<open>start\<close>: the name of the fresh temporary directory,
  the interpreter, whether writing the file fails, and whether the worker has started
  when \<open>waitForStarted(5000)\<close> returns.  The runner is modelled on a POSIX host: the
  temporary directory and the configuration file in it have POSIX paths.
\<close>

record host =
  tmp_name :: string
  sys_executable :: string
  write_error :: "error option"
  wait_for_started :: bool

definition is_running :: "local_runner \<Rightarrow> bool" where
  "is_running r = (case process r of None \<Rightarrow> False | Some p \<Rightarrow> pstate p \<noteq> NotRunning)"

definition cleanup :: "(effect, local_runner, unit) prog" where
  "cleanup =
     bind (\<lambda>r. (case tmpdir r of None \<Rightarrow> ret () r | Some d \<Rightarrow> emit (RmTmpDir d) r)) (\<lambda>_.
     modify (\<lambda>r. r\<lparr>tmpdir := None, process := None\<rparr>))"

definition terminate :: "(effect, local_runner, unit) prog" where
  "terminate r = (case process r of None \<Rightarrow> ret () r | Some p \<Rightarrow> emit ProcKill r)"

definition start :: "host \<Rightarrow> model_obj \<Rightarrow> string \<Rightarrow> (effect, local_runner, unit) prog" where
  "start H config mode =
     (\<lambda>r.
       (if is_running r then raise (RuntimeError ''A local run is already in progress.'')
        else
          bind (emit (MkTmpDir (tmp_name H))) (\<lambda>_.
          bind (modify (\<lambda>r. r\<lparr>tmpdir := Some (tmp_name H)\<rparr>)) (\<lambda>_.
          let config_path = with_segments [tmp_name H, ''session_config.yaml''] in
          bind (\<lambda>r. (case serialize_config_to_yaml Posix (write_error H) config config_path True of
                       (t, None) \<Rightarrow> (t, Inr (), r)
                     | (t, Some e) \<Rightarrow> (t, Inl e, r))) (\<lambda>_.
          let proc = \<lparr>program = sys_executable H,
                      arguments = [''-u'', ''-c'', RUNNER_SCRIPT, posix_str config_path, mode],
                      pstate = NotRunning\<rparr> in
          bind (modify (\<lambda>r. r\<lparr>process := Some (proc\<lparr>pstate := Starting\<rparr>)\<rparr>)) (\<lambda>_.
          bind (emit (ProcStart (program proc) (arguments proc))) (\<lambda>_.
          if \<not> wait_for_started H then
            bind cleanup (\<lambda>_.
            raise (RuntimeError ''Failed to start local worker subprocess.''))
          else
            bind (modify (\<lambda>r. r\<lparr>process := Some (proc\<lparr>pstate := Running\<rparr>)\<rparr>)) (\<lambda>_.
            emit (Emit RunStarted)))))))) r)"

text \<open>The text of the path of the file that \<open>start\<close> writes and hands to the worker.\<close>

definition config_path_of :: "host \<Rightarrow> string" where
  "config_path_of H = posix_str (with_segments [tmp_name H, ''session_config.yaml''])"

text \<open>The configuration can be written: dumping it and writing the file raise nothing.\<close>

definition serializes :: "host \<Rightarrow> model_obj \<Rightarrow> bool" where
  "serializes H config \<longleftrightarrow> (\<exists>d. model_to_dict config = Inr d) \<and> write_error H = None"

text \<open>The signals emitted and the worker launches among the effects, in order.\<close>

fun signal_of :: "effect \<Rightarrow> signal option" where
  "signal_of (Emit s) = Some s"
| "signal_of _ = None"

definition signals :: "effect list \<Rightarrow> signal list" where
  "signals t = List.map_filter signal_of t"

fun launch_of :: "effect \<Rightarrow> (string \<times> string list) option" where
  "launch_of (ProcStart prog args) = Some (prog, args)"
| "launch_of _ = None"

definition launches :: "effect list \<Rightarrow> (string \<times> string list) list" where
  "launches t = List.map_filter launch_of t"

definition on_finished :: "int \<Rightarrow> (effect, local_runner, unit) prog" where
  "on_finished exit_code =
     bind (if exit_code \<noteq> 0
           then emit (Emit (RunFailed (''Local run failed with exit code '' @ str_int exit_code @ ''.'')))
           else ret ()) (\<lambda>_.
     bind (emit (Emit (RunFinished exit_code))) (\<lambda>_.
     cleanup))"

section \<open>What the form takes from Python and Qt\<close>

text \<open>
  The platform and the library calls whose results are not computed here: the path
  flavour, the JSON codec (\<open>json.loads\<close>, with \<open>None\<close> for a \<open>JSONDecodeError\<close>, and
  \<open>json.dumps(value, indent=2)\<close>), the comparison \<open>==\<close> on item data, truth values,
  \<open>float()\<close>, \<open>int()\<close> of a float and of a string, \<open>str()\<close> of values whose text is not
  modelled, the rounding of a \<open>QDoubleSpinBox\<close> (six decimals, within its range), the
  validation that builds a model from a dictionary, the text that a \<open>QLineEdit\<close> holds
  after \<open>setText\<close> (Qt cuts it at \<open>maxLength\<close>, 32767 characters unless set otherwise),
  and the text that \<open>toPlainText\<close> gives back after \<open>setPlainText\<close> on a \<open>QPlainTextEdit\<close>
  (Qt gives back every line end as a newline and a no-break space as a space).
\<close>

record ext =
  path_flavour :: flavour
  json_loads :: "string \<Rightarrow> pyval option"
  json_dumps :: "pyval \<Rightarrow> error + string"
  py_eq :: "pyval \<Rightarrow> pyval \<Rightarrow> bool"
  truthy :: "pyval \<Rightarrow> bool"
  float_of :: "pyval \<Rightarrow> error + float64"
  int_of_float :: "float64 \<Rightarrow> error + int"
  int_of_str :: "string \<Rightarrow> int option"
  str_of :: "pyval \<Rightarrow> string"
  spin_double :: "float64 \<Rightarrow> float64"
  model_validate :: "pydict \<Rightarrow> error + model_obj"
  line_edit_text :: "string \<Rightarrow> string"
  plain_edit_text :: "string \<Rightarrow> string"

text \<open>
  \<open>str.strip()\<close>: among the code points below 256, \<open>str.isspace\<close> holds for 9 to 13, 28
  to 32, 133 (next line) and 160 (no-break space).
\<close>

definition is_space :: "char \<Rightarrow> bool" where
  "is_space c \<longleftrightarrow>
     c \<in> set [CHR 0x09, CHR 0x0A, CHR 0x0B, CHR 0x0C, CHR 0x0D,
               CHR 0x1C, CHR 0x1D, CHR 0x1E, CHR 0x1F, CHR 0x20, CHR 0x85, CHR 0xA0]"

definition strip :: "string \<Rightarrow> string" where
  "strip s = rev (dropWhile is_space (rev (dropWhile is_space s)))"

text \<open>\<open>bool(value)\<close>, \<open>int(value)\<close> and \<open>str(value)\<close>.\<close>

fun py_bool :: "ext \<Rightarrow> pyval \<Rightarrow> bool" where
  "py_bool X PNone = False"
| "py_bool X (PBool b) = b"
| "py_bool X (PInt i) = (i \<noteq> 0)"
| "py_bool X (PStr s) = (s \<noteq> [])"
| "py_bool X (PPath p) = True"
| "py_bool X (PList vs) = (vs \<noteq> [])"
| "py_bool X (PTuple vs) = (vs \<noteq> [])"
| "py_bool X (PDict kvs) = (kvs \<noteq> [])"
| "py_bool X v = truthy X v"

fun py_int :: "ext \<Rightarrow> pyval \<Rightarrow> error + int" where
  "py_int X (PInt i) = Inr i"
| "py_int X (PBool b) = Inr (if b then 1 else 0)"
| "py_int X (PFloat f) = int_of_float X f"
| "py_int X (PStr s) =
     (case int_of_str X s of None \<Rightarrow> Inl (ValueError InvalidLiteral) | Some i \<Rightarrow> Inr i)"
| "py_int X v = Inl TypeError"

fun py_str :: "ext \<Rightarrow> pyval \<Rightarrow> string" where
  "py_str X (PStr s) = s"
| "py_str X (PPath p) = path_str (path_flavour X) p"
| "py_str X (PInt i) = str_int i"
| "py_str X (PBool b) = (if b then ''True'' else ''False'')"
| "py_str X PNone = ''None''"
| "py_str X v = str_of X v"

section \<open>config\_form: annotations\<close>

text \<open>
  A type annotation as the form inspects it: the classes it tests for, \<open>Literal\<close> with
  its options, an \<open>Enum\<close> class with its members, a union (\<open>Union\<close>, \<open>X | Y\<close>,
  \<open>Optional\<close>) with its members, and anything else (a generic alias such as
  \<open>Dict[str, Any]\<close>, a model class).
\<close>

datatype annotation =
    ABool | AInt | AFloat | AStr | APath | ADict | ANoneType
  | ALiteral "pyval list"
  | AEnum "pyval list"
  | AUnion "annotation list"
  | AOther string

definition unwrap_optional :: "annotation \<Rightarrow> annotation \<times> bool" where
  "unwrap_optional annotation =
     (case annotation of
        AUnion members \<Rightarrow>
          (case filter (\<lambda>arg. arg \<noteq> ANoneType) members of
             [arg] \<Rightarrow> (arg, True)
           | _ \<Rightarrow> (annotation, False))
      | _ \<Rightarrow> (annotation, False))"

lemma size_unwrap_optional: "size (fst (unwrap_optional a)) \<le> size a"
proof (cases a)
  case (AUnion members)
  show ?thesis
  proof (cases "filter (\<lambda>arg. arg \<noteq> ANoneType) members")
    case Nil
    with AUnion show ?thesis by (simp add: unwrap_optional_def)
  next
    case (Cons arg rest)
    then have "arg \<in> set (filter (\<lambda>arg. arg \<noteq> ANoneType) members)" by simp
    then have "arg \<in> set members" by simp
    then have "size arg \<le> size_list size members" by (simp add: size_list_estimation')
    with AUnion Cons show ?thesis by (cases rest) (simp_all add: unwrap_optional_def)
  qed
qed (simp_all add: unwrap_optional_def)

function annotation_has_type :: "annotation \<Rightarrow> annotation \<Rightarrow> bool" where
  "annotation_has_type annotation target =
     (let base = fst (unwrap_optional annotation) in
      if base = target then True
      else (case base of
              AUnion members \<Rightarrow> (\<exists>arg \<in> set members. annotation_has_type arg target)
            | _ \<Rightarrow> False))"
  by pat_completeness auto
termination
proof (relation "measure (\<lambda>(a, t). size a)")
  show "wf (measure (\<lambda>(a, t). size a))" by simp
next
  fix annotation target :: annotation and base members arg
  assume b: "base = fst (unwrap_optional annotation)" and u: "base = AUnion members"
    and m: "arg \<in> set members"
  from m have "size arg < size (AUnion members)"
    by (simp add: less_Suc_eq_le size_list_estimation')
  also have "\<dots> \<le> size annotation" using b u size_unwrap_optional [of annotation] by simp
  finally show "((arg, target), (annotation, target)) \<in> measure (\<lambda>(a, t). size a)" by simp
qed

declare annotation_has_type.simps [simp del]

section \<open>config\_form: editors\<close>

text \<open>
  An editor with its widget state; the three closures of a binding are \<open>getter\<close>,
  \<open>setter\<close> and \<open>resetter\<close> applied to it.  A \<open>PathPicker\<close> carries \<open>pick_directory\<close>,
  the flag \<open>optional\<close> and the text of its line edit; the editor of a dictionary field
  carries the field name (for its messages), \<open>optional\<close> and its text; a combo box
  carries the item data and the current index (\<open>-1\<close> when it has no item).
\<close>

datatype flow_mode = InlineJSON | JSONFile

datatype editor =
    FlowOptionsEditor flow_mode string string
  | PathPickerWidget bool bool string
  | QCheckBox bool
  | QSpinBox int
  | QDoubleSpinBox float64
  | LiteralCombo "pyval list" int
  | EnumCombo "pyval list" int
  | JsonTextEdit string bool string
  | TextLineEdit bool string
  | FallbackLineEdit string

text \<open>\<open>QComboBox.currentData()\<close> and the loop of the combo setters.\<close>

definition current_data :: "pyval list \<Rightarrow> int \<Rightarrow> pyval" where
  "current_data items i = (if 0 \<le> i \<and> i < int (length items) then items ! nat i else PNone)"

fun first_index :: "(pyval \<Rightarrow> bool) \<Rightarrow> pyval list \<Rightarrow> nat option" where
  "first_index P [] = None"
| "first_index P (x # xs) =
     (if P x then Some 0 else map_option Suc (first_index P xs))"

definition select_item :: "ext \<Rightarrow> pyval list \<Rightarrow> int \<Rightarrow> pyval \<Rightarrow> int" where
  "select_item X items current v =
     (case first_index (\<lambda>item. py_eq X item v) items of
        None \<Rightarrow> current
      | Some index \<Rightarrow> int index)"

text \<open>
  \<open>QSpinBox.setValue\<close>: the argument must fit a C \<open>int\<close>, and is forced into the range
  set by \<open>setRange(-1_000_000_000, 1_000_000_000)\<close>.
\<close>

definition spin_set :: "int \<Rightarrow> error + int" where
  "spin_set i =
     (if i < - (2 ^ 31) \<or> 2 ^ 31 \<le> i then Inl OverflowError
      else Inr (max (- 1000000000) (min 1000000000 i)))"

text \<open>The text getter shared by the path picker and the line edit of a string or path.\<close>

definition text_value :: "bool \<Rightarrow> string \<Rightarrow> pyval" where
  "text_value optional raw =
     (let text = strip raw in if optional \<and> text = [] then PNone else PStr text)"

fun getter :: "ext \<Rightarrow> editor \<Rightarrow> error + pyval" where
  "getter X (FlowOptionsEditor mode inline file) =
     (if mode = InlineJSON then
        (let text = strip inline in
         if text = [] then Inr (PDict [])
         else (case json_loads X text of
                 None \<Rightarrow> Inl (ValueError InvalidFlowOptionsJSON)
               | Some parsed \<Rightarrow>
                   (case parsed of
                      PDict d \<Rightarrow> Inr parsed
                    | _ \<Rightarrow> Inl (ValueError FlowOptionsMustBeObject))))
      else Inr (PStr (strip file)))"
| "getter X (PathPickerWidget pick_directory optional text) = Inr (text_value optional text)"
| "getter X (QCheckBox checked) = Inr (PBool checked)"
| "getter X (QSpinBox i) = Inr (PInt i)"
| "getter X (QDoubleSpinBox f) = Inr (PFloat f)"
| "getter X (LiteralCombo items current) = Inr (current_data items current)"
| "getter X (EnumCombo items current) = Inr (current_data items current)"
| "getter X (JsonTextEdit field_name optional raw) =
     (let text = strip raw in
      if text = [] then Inr (if \<not> optional then PDict [] else PNone)
      else (case json_loads X text of
              None \<Rightarrow> Inl (ValueError (InvalidJSONFor field_name))
            | Some parsed \<Rightarrow>
                (case parsed of
                   PDict d \<Rightarrow> Inr parsed
                 | _ \<Rightarrow> Inl (ValueError (ExpectsJSONObject field_name)))))"
| "getter X (TextLineEdit optional text) = Inr (text_value optional text)"
| "getter X (FallbackLineEdit text) = Inr (PStr (strip text))"

definition line_text :: "ext \<Rightarrow> pyval \<Rightarrow> string" where
  "line_text X v = (if v = PNone then [] else py_str X v)"

text \<open>
  A setter gives the editor it leaves behind and the exception it raises, if any:
  \<open>FlowOptionsEditor.set_value\<close> has switched to the inline mode when \<open>json.dumps\<close>
  raises; the other setters raise before they touch the widget.
\<close>

fun setter :: "ext \<Rightarrow> pyval \<Rightarrow> editor \<Rightarrow> editor \<times> error option" where
  "setter X v (FlowOptionsEditor mode inline file) =
     (case v of
        PDict d \<Rightarrow>
          (case json_dumps X v of
             Inl e \<Rightarrow> (FlowOptionsEditor InlineJSON inline file, Some e)
           | Inr text \<Rightarrow> (FlowOptionsEditor InlineJSON (plain_edit_text X text) file, None))
      | PNone \<Rightarrow> (FlowOptionsEditor InlineJSON (plain_edit_text X ''{}'') file, None)
      | _ \<Rightarrow> (FlowOptionsEditor JSONFile inline (line_edit_text X (py_str X v)), None))"
| "setter X v (PathPickerWidget pick_directory optional text) =
     (PathPickerWidget pick_directory optional (line_edit_text X (line_text X v)), None)"
| "setter X v (QCheckBox checked) = (QCheckBox (py_bool X v), None)"
| "setter X v (QSpinBox i) =
     (case py_int X v of
        Inl e \<Rightarrow> (QSpinBox i, Some e)
      | Inr n \<Rightarrow>
          (case spin_set n of Inl e \<Rightarrow> (QSpinBox i, Some e) | Inr m \<Rightarrow> (QSpinBox m, None)))"
| "setter X v (QDoubleSpinBox f) =
     (case float_of X v of
        Inl e \<Rightarrow> (QDoubleSpinBox f, Some e)
      | Inr g \<Rightarrow> (QDoubleSpinBox (spin_double X g), None))"
| "setter X v (LiteralCombo items current) =
     (LiteralCombo items (select_item X items current v), None)"
| "setter X v (EnumCombo items current) =
     (EnumCombo items (select_item X items current v), None)"
| "setter X v (JsonTextEdit field_name optional text) =
     (if v = PNone then (JsonTextEdit field_name optional (plain_edit_text X []), None)
      else (case json_dumps X v of
              Inl e \<Rightarrow> (JsonTextEdit field_name optional text, Some e)
            | Inr dumped \<Rightarrow>
                (JsonTextEdit field_name optional (plain_edit_text X dumped), None)))"
| "setter X v (TextLineEdit optional text) =
     (TextLineEdit optional (line_edit_text X (line_text X v)), None)"
| "setter X v (FallbackLineEdit text) = (FallbackLineEdit (line_edit_text X (line_text X v)), None)"

fun resetter :: "ext \<Rightarrow> editor \<Rightarrow> editor" where
  "resetter X (FlowOptionsEditor mode inline file) =
     FlowOptionsEditor InlineJSON (plain_edit_text X ''{}'') []"
| "resetter X (PathPickerWidget pick_directory optional text) =
     PathPickerWidget pick_directory optional []"
| "resetter X (QCheckBox checked) = QCheckBox False"
| "resetter X (QSpinBox i) = QSpinBox 0"
| "resetter X (QDoubleSpinBox f) = QDoubleSpinBox (spin_double X 0)"
| "resetter X (LiteralCombo items current) =
     LiteralCombo items (if 0 < length items then 0 else current)"
| "resetter X (EnumCombo items current) =
     EnumCombo items (if 0 < length items then 0 else current)"
| "resetter X (JsonTextEdit field_name optional text) =
     JsonTextEdit field_name optional (plain_edit_text X (if \<not> optional then ''{}'' else []))"
| "resetter X (TextLineEdit optional text) = TextLineEdit optional []"
| "resetter X (FallbackLineEdit text) = FallbackLineEdit []"

text \<open>
  \<open>_create_editor\<close>.  The default \<open>dflt\<close> is \<open>None\<close> for \<open>MISSING\<close>.  A fresh combo box shows its
  first item; the other widgets start empty, unchecked or at zero.
\<close>

definition PATH_FIELD_NAMES :: "string list" where
  "PATH_FIELD_NAMES = [''root'', ''output_root'', ''final_results'', ''center'']"

definition fresh_combo :: "pyval list \<Rightarrow> int" where
  "fresh_combo items = (if items = [] then - 1 else 0)"

definition set_default :: "ext \<Rightarrow> pyval option \<Rightarrow> bool \<Rightarrow> editor \<Rightarrow> error + editor" where
  "set_default X dflt reset_if_missing editor =
     (case dflt of
        Some d \<Rightarrow> (case setter X d editor of (e, None) \<Rightarrow> Inr e | (e, Some err) \<Rightarrow> Inl err)
      | None \<Rightarrow> Inr (if reset_if_missing then resetter X editor else editor))"

definition create_editor ::
  "ext \<Rightarrow> string \<Rightarrow> annotation \<Rightarrow> pyval option \<Rightarrow> error + editor" where
  "create_editor X field_name annotation dflt =
     (case unwrap_optional annotation of
        (base_annotation, optional) \<Rightarrow>
          if field_name = ''flow_options'' then
            set_default X dflt True (FlowOptionsEditor InlineJSON [] [])
          else if field_name \<in> set PATH_FIELD_NAMES then
            set_default X dflt False
              (PathPickerWidget (field_name \<noteq> ''center'') optional [])
          else if base_annotation = ABool then set_default X dflt False (QCheckBox False)
          else if base_annotation = AInt then set_default X dflt False (QSpinBox 0)
          else if base_annotation = AFloat then set_default X dflt False (QDoubleSpinBox 0)
          else (case base_annotation of
                  ALiteral options \<Rightarrow>
                    set_default X dflt True (LiteralCombo options (fresh_combo options))
                | AEnum enum_values \<Rightarrow>
                    set_default X dflt True (EnumCombo enum_values (fresh_combo enum_values))
                | _ \<Rightarrow>
                    if base_annotation = ADict \<or> annotation_has_type base_annotation ADict then
                      set_default X dflt True (JsonTextEdit field_name optional [])
                    else if base_annotation \<in> {AStr, APath}
                         \<or> annotation_has_type base_annotation APath then
                      set_default X dflt False (TextLineEdit optional [])
                    else set_default X dflt False (FallbackLineEdit [])))"

text \<open>
  The field names that \<open>_create_editor\<close> treats by name, and an editor without the
  field name that the dictionary editor keeps for its messages.
\<close>

definition NAMED_FIELDS :: "string list" where
  "NAMED_FIELDS = ''flow_options'' # PATH_FIELD_NAMES"

fun forget_name :: "editor \<Rightarrow> editor" where
  "forget_name (JsonTextEdit field_name optional text) = JsonTextEdit [] optional text"
| "forget_name e = e"

section \<open>model\_utils: the fields of a model class\<close>

text \<open>
  A field as the model class exposes it: its annotation if it has one, its default
  (\<open>None\<close> when missing or undefined), its default factory if any (with \<open>None\<close> for a
  factory that raises), and whether it is required.
\<close>

record raw_field =
  field_annotation :: "annotation option"
  field_default :: "pyval option"
  field_factory :: "pyval option option"
  field_required :: bool

record model_field_spec =
  spec_name :: string
  spec_annotation :: annotation
  spec_default :: "pyval option"
  spec_required :: bool

definition field_default_of :: "raw_field \<Rightarrow> pyval option" where
  "field_default_of field =
     (case field_default field of
        Some d \<Rightarrow> Some d
      | None \<Rightarrow> (case field_factory field of Some made \<Rightarrow> made | None \<Rightarrow> None))"

definition field_spec :: "string \<times> raw_field \<Rightarrow> model_field_spec" where
  "field_spec nf =
     (case nf of
        (name, field) \<Rightarrow>
          \<lparr>spec_name = name,
           spec_annotation = (case field_annotation field of Some a \<Rightarrow> a | None \<Rightarrow> AStr),
           spec_default = (if field_required field then None else field_default_of field),
           spec_required = field_required field\<rparr>)"

text \<open>A model class: its \<open>model_fields\<close> or \<open>__fields__\<close>, if it has either.\<close>

definition iter_model_fields ::
  "(string \<times> raw_field) list option \<Rightarrow> error + model_field_spec list" where
  "iter_model_fields raw_fields =
     (case raw_fields of None \<Rightarrow> Inl TypeError | Some fs \<Rightarrow> Inr (map field_spec fs))"

section \<open>config\_form: SessionConfigForm\<close>

record binding =
  editor_of :: editor
  default_of :: "pyval option"

type_synonym form = "(string \<times> binding) list"

fun add_editors :: "ext \<Rightarrow> model_field_spec list \<Rightarrow> form \<Rightarrow> error + form" where
  "add_editors X [] bindings = Inr bindings"
| "add_editors X (spec # rest) bindings =
     (case create_editor X (spec_name spec) (spec_annotation spec) (spec_default spec) of
        Inl e \<Rightarrow> Inl e
      | Inr editor \<Rightarrow>
          add_editors X rest
            (AList.update (spec_name spec)
               \<lparr>editor_of = editor, default_of = spec_default spec\<rparr> bindings))"

definition form_init :: "ext \<Rightarrow> (string \<times> raw_field) list option \<Rightarrow> error + form" where
  "form_init X session_config_cls =
     (case iter_model_fields session_config_cls of
        Inl e \<Rightarrow> Inl e
      | Inr specs \<Rightarrow> add_editors X specs [])"

fun get_form_data :: "ext \<Rightarrow> form \<Rightarrow> error + pydict" where
  "get_form_data X [] = Inr []"
| "get_form_data X ((name, b) # rest) =
     (case getter X (editor_of b) of
        Inl e \<Rightarrow> Inl e
      | Inr v \<Rightarrow>
          (case get_form_data X rest of
             Inl e \<Rightarrow> Inl e
           | Inr data \<Rightarrow> Inr ((name, v) # data)))"

text \<open>
  \<open>set_form_data\<close> changes the widgets one after the other; a setter that raises leaves
  the earlier changes in place, and what it has changed itself.
\<close>

fun set_form_data :: "ext \<Rightarrow> pydict \<Rightarrow> form \<Rightarrow> form \<times> error option" where
  "set_form_data X [] bindings = (bindings, None)"
| "set_form_data X ((name, v) # rest) bindings =
     (case map_of bindings name of
        None \<Rightarrow> set_form_data X rest bindings
      | Some b \<Rightarrow>
          (case setter X v (editor_of b) of
             (editor, Some e) \<Rightarrow> (AList.update name (b\<lparr>editor_of := editor\<rparr>) bindings, Some e)
           | (editor, None) \<Rightarrow>
               set_form_data X rest (AList.update name (b\<lparr>editor_of := editor\<rparr>) bindings)))"

definition set_from_config :: "ext \<Rightarrow> model_obj \<Rightarrow> form \<Rightarrow> form \<times> error option" where
  "set_from_config X config bindings =
     (case model_to_dict config of
        Inl e \<Rightarrow> (bindings, Some e)
      | Inr d \<Rightarrow> set_form_data X d bindings)"

fun reset_to_defaults :: "ext \<Rightarrow> form \<Rightarrow> form \<times> error option" where
  "reset_to_defaults X [] = ([], None)"
| "reset_to_defaults X ((name, b) # rest) =
     (case (case default_of b of
              None \<Rightarrow> (resetter X (editor_of b), None)
            | Some d \<Rightarrow> setter X d (editor_of b)) of
        (editor, Some e) \<Rightarrow> ((name, b\<lparr>editor_of := editor\<rparr>) # rest, Some e)
      | (editor, None) \<Rightarrow>
          (case reset_to_defaults X rest of
             (rest', r) \<Rightarrow> ((name, b\<lparr>editor_of := editor\<rparr>) # rest', r)))"

definition to_session_config :: "ext \<Rightarrow> form \<Rightarrow> error + model_obj" where
  "to_session_config X bindings =
     (case get_form_data X bindings of Inl e \<Rightarrow> Inl e | Inr data \<Rightarrow> model_validate X data)"

text \<open>
  Loading a configuration into a form and reading the form back, into a dictionary and
  into a model; the round trip starts from the form as it is built for the model class.
\<close>

definition load_and_read :: "ext \<Rightarrow> model_obj \<Rightarrow> form \<Rightarrow> error + pydict" where
  "load_and_read X config bindings =
     (case set_from_config X config bindings of
        (bindings', Some e) \<Rightarrow> Inl e
      | (bindings', None) \<Rightarrow> get_form_data X bindings')"

definition load_and_rebuild :: "ext \<Rightarrow> model_obj \<Rightarrow> form \<Rightarrow> error + model_obj" where
  "load_and_rebuild X config bindings =
     (case set_from_config X config bindings of
        (bindings', Some e) \<Rightarrow> Inl e
      | (bindings', None) \<Rightarrow> to_session_config X bindings')"

definition round_trip ::
  "ext \<Rightarrow> (string \<times> raw_field) list option \<Rightarrow> model_obj \<Rightarrow> error + pydict" where
  "round_trip X session_config_cls config =
     (case form_init X session_config_cls of
        Inl e \<Rightarrow> Inl e
      | Inr bindings \<Rightarrow> load_and_read X config bindings)"

definition round_trip_model ::
  "ext \<Rightarrow> (string \<times> raw_field) list option \<Rightarrow> model_obj \<Rightarrow> error + model_obj" where
  "round_trip_model X session_config_cls config =
     (case form_init X session_config_cls of
        Inl e \<Rightarrow> Inl e
      | Inr bindings \<Rightarrow> load_and_rebuild X config bindings)"

text \<open>
  The values an editor gives back as they were set, a path as its text.  A line edit
  keeps a text that it holds unchanged and that \<open>strip\<close> leaves as it is; so a path
  picker and the line edit of a string or path keep such a string (not empty when the
  field is optional), a path with such a text, and \<open>None\<close> when the field is optional.
  A check box keeps a Boolean; a spin box an integer within its range; a double spin
  box a float that it does not round; a combo box a value whose first equal item is the
  value itself.  A dictionary editor keeps a dictionary whose JSON text, as the text
  edit gives it back, is not blank and is parsed to the dictionary again, and \<open>None\<close>
  when the field is optional; the flow options keep such a dictionary and what a line
  edit keeps, but not \<open>None\<close>.
\<close>

definition as_form_value :: "ext \<Rightarrow> pyval \<Rightarrow> pyval" where
  "as_form_value X v = (case v of PPath p \<Rightarrow> PStr (path_str (path_flavour X) p) | _ \<Rightarrow> v)"

definition json_kept :: "ext \<Rightarrow> pyval \<Rightarrow> bool" where
  "json_kept X v =
     (case v of
        PDict d \<Rightarrow>
          (case json_dumps X v of
             Inl e \<Rightarrow> False
           | Inr text \<Rightarrow>
               strip (plain_edit_text X text) \<noteq> []
               \<and> json_loads X (strip (plain_edit_text X text)) = Some v)
      | _ \<Rightarrow> False)"

definition line_kept :: "ext \<Rightarrow> string \<Rightarrow> bool" where
  "line_kept X s \<longleftrightarrow> strip (line_edit_text X s) = s"

definition string_kept :: "ext \<Rightarrow> pyval \<Rightarrow> bool" where
  "string_kept X v =
     (case v of
        PStr s \<Rightarrow> line_kept X s
      | PPath p \<Rightarrow> line_kept X (path_str (path_flavour X) p)
      | _ \<Rightarrow> False)"

definition text_kept :: "ext \<Rightarrow> bool \<Rightarrow> pyval \<Rightarrow> bool" where
  "text_kept X optional v =
     (case v of
        PStr s \<Rightarrow> line_kept X s \<and> (s \<noteq> [] \<or> \<not> optional)
      | PNone \<Rightarrow> optional \<and> line_kept X []
      | _ \<Rightarrow> string_kept X v)"

definition item_kept :: "ext \<Rightarrow> pyval list \<Rightarrow> pyval \<Rightarrow> bool" where
  "item_kept X items v =
     (case first_index (\<lambda>item. py_eq X item v) items of
        None \<Rightarrow> False
      | Some index \<Rightarrow> items ! index = as_form_value X v)"

fun keeps :: "ext \<Rightarrow> editor \<Rightarrow> pyval \<Rightarrow> bool" where
  "keeps X (FlowOptionsEditor mode inline file) v = (string_kept X v \<or> json_kept X v)"
| "keeps X (PathPickerWidget pick_directory optional text) v = text_kept X optional v"
| "keeps X (QCheckBox checked) v = (case v of PBool b \<Rightarrow> True | _ \<Rightarrow> False)"
| "keeps X (QSpinBox i) v =
     (case v of PInt n \<Rightarrow> - 1000000000 \<le> n \<and> n \<le> 1000000000 | _ \<Rightarrow> False)"
| "keeps X (QDoubleSpinBox f) v =
     (case v of PFloat g \<Rightarrow> float_of X v = Inr g \<and> spin_double X g = g | _ \<Rightarrow> False)"
| "keeps X (LiteralCombo items current) v = item_kept X items v"
| "keeps X (EnumCombo items current) v = item_kept X items v"
| "keeps X (JsonTextEdit field_name optional text) v =
     (if v = PNone then optional \<and> strip (plain_edit_text X []) = [] else json_kept X v)"
| "keeps X (TextLineEdit optional text) v = text_kept X optional v"
| "keeps X (FallbackLineEdit text) v = string_kept X v"

section \<open>Concrete instances\<close>

text \<open>A library whose stages all return and count their calls in the world.\<close>

definition lib0 :: "(string, unit, unit, nat) pyflowreg" where
  "lib0 = \<lparr>from_file = (\<lambda>p w. Inr p),
           run_stage1 = (\<lambda>c w. (Inr (), Suc w)),
           run_stage2 = (\<lambda>c w. (Inr (int w, (), ()), Suc w)),
           run_stage3 = (\<lambda>c m d w. (Inr (), Suc w))\<rparr>"

text \<open>
  Externals for evaluating examples: a POSIX platform, a JSON codec that knows the empty
  object and the empty array only (the examples give it no other valid JSON text),
  equality of values as \<open>==\<close>, conversions that accept a value of the target type and
  nothing else, a line edit that cuts its text at 32767 characters, and a text edit that
  gives back a carriage return, with the line feed after it if there is one, as a line
  feed and a no-break space as a space.
\<close>

fun plain_text :: "string \<Rightarrow> string" where
  "plain_text [] = []"
| "plain_text (c # cs) =
     (if c = CHR 0x0D then
        CHR 0x0A # plain_text (if take 1 cs = [CHR 0x0A] then drop 1 cs else cs)
      else if c = CHR 0xA0 then CHR 0x20 # plain_text cs
      else c # plain_text cs)"

definition ext0 :: ext where
  "ext0 =
     \<lparr>path_flavour = Posix,
      json_loads = (\<lambda>s. if s = ''{}'' then Some (PDict [])
                        else if s = ''[]'' then Some (PList []) else None),
      json_dumps = (\<lambda>v. if v = PDict [] then Inr ''{}''
                        else if v = PList [] then Inr ''[]'' else Inl TypeError),
      py_eq = (\<lambda>a b. a = b),
      truthy = (\<lambda>v. True),
      float_of = (\<lambda>v. case v of PFloat f \<Rightarrow> Inr f | _ \<Rightarrow> Inl TypeError),
      int_of_float = (\<lambda>f. Inl OverflowError),
      int_of_str = (\<lambda>s. None),
      str_of = (\<lambda>v. []),
      spin_double = (\<lambda>f. f),
      model_validate = (\<lambda>d. Inr (ModelDump d)),
      line_edit_text = take 32767,
      plain_edit_text = plain_text\<rparr>"

text \<open>
  A model class with a path, a string, an optional string, the flow options, a Boolean
  and an integer field, and two configurations of it.
\<close>

definition cls1 :: "(string \<times> raw_field) list option" where
  "cls1 = Some
     [(''root'', \<lparr>field_annotation = Some APath, field_default = None,
                  field_factory = None, field_required = True\<rparr>),
      (''pattern'', \<lparr>field_annotation = Some AStr, field_default = Some (PStr ''*.tif''),
                     field_factory = None, field_required = False\<rparr>),
      (''center'', \<lparr>field_annotation = Some (AUnion [AStr, ANoneType]),
                    field_default = Some PNone, field_factory = None, field_required = False\<rparr>),
      (''flow_options'', \<lparr>field_annotation = Some (AUnion [ADict, APath, AStr, ANoneType]),
                          field_default = Some PNone, field_factory = None,
                          field_required = False\<rparr>),
      (''resume'', \<lparr>field_annotation = Some ABool, field_default = Some (PBool False),
                    field_factory = None, field_required = False\<rparr>),
      (''iterations'', \<lparr>field_annotation = Some AInt, field_default = Some (PInt 10),
                        field_factory = None, field_required = False\<rparr>)]"

definition form1 :: form where
  "form1 =
     [(''root'', \<lparr>editor_of = PathPickerWidget True False [], default_of = None\<rparr>),
      (''pattern'', \<lparr>editor_of = TextLineEdit False ''*.tif'', default_of = Some (PStr ''*.tif'')\<rparr>),
      (''center'', \<lparr>editor_of = PathPickerWidget False True [], default_of = Some PNone\<rparr>),
      (''flow_options'', \<lparr>editor_of = FlowOptionsEditor InlineJSON ''{}'' [],
                          default_of = Some PNone\<rparr>),
      (''resume'', \<lparr>editor_of = QCheckBox False, default_of = Some (PBool False)\<rparr>),
      (''iterations'', \<lparr>editor_of = QSpinBox 10, default_of = Some (PInt 10)\<rparr>)]"

definition values1 :: pydict where
  "values1 =
     [(''root'', PPath ''/data''), (''pattern'', PStr ''*.tif ''), (''center'', PStr []),
      (''flow_options'', PNone), (''resume'', PBool True), (''iterations'', PInt 3)]"

definition values2 :: pydict where
  "values2 =
     [(''root'', PPath ''/data''), (''pattern'', PStr ''*.tif''), (''center'', PNone),
      (''flow_options'', PDict []), (''resume'', PBool True), (''iterations'', PInt 3)]"

definition host0 :: host where
  "host0 = \<lparr>tmp_name = ''/tmp/pyflowreg_session_gui_x'', sys_executable = ''/usr/bin/python3'',
            write_error = None, wait_for_started = True\<rparr>"

definition dumped0 :: pydict where
  "dumped0 = [(''root'', PPath ''/data//session/''),
              (''output_root'', PStr ''/data/session/out''),
              (''final_results'', PPath ''/elsewhere/results''),
              (''center'', PNone),
              (''flow_options'', PStr ''/data/session/flow.json''),
              (''scale'', PTuple [PInt 1, PInt 2])]"

definition config0 :: model_obj where
  "config0 = ModelDump dumped0"



definition idle :: local_runner where
  "idle = \<lparr>process = None, tmpdir = None\<rparr>"

definition busy :: local_runner where
  "busy = \<lparr>process = Some \<lparr>program = ''/usr/bin/python3'', arguments = [], pstate = Running\<rparr>,
           tmpdir = Some ''/tmp/t''\<rparr>"

section \<open>Theorems\<close>

subsection \<open>Paths\<close>













lemma path_posix [simp]:
  "path_str Posix raw = posix_str raw"
  "is_absolute Posix raw = posix_is_absolute raw"
  "relative_to Posix c r =
     (case posix_relative_to c r of Inl e \<Rightarrow> Inl e | Inr rel \<Rightarrow> Inr (posix_str rel))"
  by (simp_all add: path_str_def is_absolute_def relative_to_def)

lemma is_relative_to_posix [simp]: "is_relative_to Posix c r = posix_is_relative_to c r"
  by (simp add: is_relative_to_def posix_relative_to_def)








lemma tail_of_Nil [simp]: "tail_of [] = []"
  by (simp add: tail_of_def)









subsection \<open>Serialization\<close>

lemma keys_update_present:
  "map_of al k = Some v \<Longrightarrow> map fst (AList.update k w al) = map fst al"
  by (induction al) (auto split: if_splits)

lemma map_of_rewrite_field:
  "map_of (rewrite_field fl root p f data) k =
     (if k = f then map_option (\<lambda>v. maybe_relative fl v root p) (map_of data k) else map_of data k)"
  by (cases "map_of data f") (auto simp: rewrite_field_def update_conv')




text \<open>
  \<open>RELATIVE_PATH_FIELDS\<close> is a set in the source, so the loop may visit the fields in
  any order; the result is the same.
\<close>

lemma update_commute_present:
  "k \<noteq> k' \<Longrightarrow> k \<in> fst ` set al \<Longrightarrow> k' \<in> fst ` set al \<Longrightarrow>
     AList.update k v (AList.update k' v' al) = AList.update k' v' (AList.update k v al)"
  by (induction al) auto

lemma rewrite_field_absent: "map_of data f = None \<Longrightarrow> rewrite_field fl root p f data = data"
  by (simp add: rewrite_field_def)

lemma rewrite_field_commute:
  "rewrite_field fl root p f (rewrite_field fl root p g data) =
     rewrite_field fl root p g (rewrite_field fl root p f data)"
proof (cases "f = g")
  case True
  then show ?thesis by simp
next
  case False
  show ?thesis
  proof (cases "map_of data f")
    case None
    then have "map_of (rewrite_field fl root p g data) f = None"
      using False by (simp add: map_of_rewrite_field)
    with None show ?thesis by (simp add: rewrite_field_absent)
  next
    case f: (Some v)
    show ?thesis
    proof (cases "map_of data g")
      case None
      then have "map_of (rewrite_field fl root p f data) g = None"
        using False by (simp add: map_of_rewrite_field)
      with None show ?thesis by (simp add: rewrite_field_absent)
    next
      case g: (Some w)
      from f have kf: "f \<in> fst ` set data" by (metis domI dom_map_of_conv_image_fst)
      from g have kg: "g \<in> fst ` set data" by (metis domI dom_map_of_conv_image_fst)
      show ?thesis
        using f g False update_commute_present [OF False kf kg]
        by (simp add: rewrite_field_def update_conv')
    qed
  qed
qed

theorem rewrite_order_irrelevant:
  assumes "mset fs = mset RELATIVE_PATH_FIELDS"
  shows "fold (rewrite_field fl root p) fs data = fold (rewrite_field fl root p) RELATIVE_PATH_FIELDS data"
proof -
  have "fold (rewrite_field fl root p) fs = fold (rewrite_field fl root p) RELATIVE_PATH_FIELDS"
    by (rule fold_multiset_equiv) (auto simp: assms rewrite_field_commute fun_eq_iff)
  then show ?thesis by simp
qed

theorem rewrite_order_irrelevant_witness:
  "mset [''center'', ''output_root'', ''final_results''] = mset RELATIVE_PATH_FIELDS
   \<and> fold (rewrite_field fl (Some ''/data/session'') True)
        [''center'', ''output_root'', ''final_results''] (converted fl dumped0) =
      fold (rewrite_field fl (Some ''/data/session'') True) RELATIVE_PATH_FIELDS (converted fl dumped0)"
proof -
  have m: "mset [''center'', ''output_root'', ''final_results''] = mset RELATIVE_PATH_FIELDS"
    by (simp add: RELATIVE_PATH_FIELDS_def)
  from rewrite_order_irrelevant [OF m] m show ?thesis by simp
qed









































subsection \<open>The effect programs\<close>

lemmas prog_defs = bind_def ret_def raise_def emit_def modify_def

subsection \<open>The runner script\<close>

lemma main_argv: "main L (a0 # cfg_path # mode # rest) = run_mode L cfg_path mode"
  by (simp add: main_def)

lemma main_short_argv: "length argv < 3 \<Longrightarrow> main L argv w = ([], Inl IndexError, w)"
  by (auto simp: main_def raise_def split: list.splits)







subsection \<open>LocalRunner\<close>

lemmas runner_defs = start_def cleanup_def on_finished_def serialize_config_to_yaml_def
  signals_def launches_def

lemma start_running:
  "is_running r \<Longrightarrow>
     start H config mode r = ([], Inl (RuntimeError ''A local run is already in progress.''), r)"
  by (simp add: start_def raise_def)

lemma start_serialize_fails:
  assumes "\<not> is_running r" "\<not> serializes H config"
  shows "fst (start H config mode r) = [MkTmpDir (tmp_name H)]"
    and "\<exists>e. fst (snd (start H config mode r)) = Inl e"
    and "snd (snd (start H config mode r)) = r\<lparr>tmpdir := Some (tmp_name H)\<rparr>"
  using assms
  by (cases "model_to_dict config"; cases "write_error H";
      simp add: runner_defs prog_defs serializes_def Let_def)+

lemma start_effects:
  assumes "\<not> is_running r" "model_to_dict config = Inr d" "write_error H = None"
  shows "fst (start H config mode r) =
           [MkTmpDir (tmp_name H), WriteYaml (config_path_of H) (yaml_data Posix d True),
            ProcStart (sys_executable H) [''-u'', ''-c'', RUNNER_SCRIPT, config_path_of H, mode]]
           @ (if wait_for_started H then [Emit RunStarted] else [RmTmpDir (tmp_name H)])"
  using assms
  by (cases "wait_for_started H"; simp add: runner_defs prog_defs Let_def config_path_of_def)

lemma start_started:
  assumes "\<not> is_running r" "serializes H config" "wait_for_started H"
  shows "fst (snd (start H config mode r)) = Inr ()"
    and "snd (snd (start H config mode r)) =
           \<lparr>process = Some \<lparr>program = sys_executable H,
                arguments = [''-u'', ''-c'', RUNNER_SCRIPT, config_path_of H, mode],
                pstate = Running\<rparr>, tmpdir = Some (tmp_name H)\<rparr>"
  using assms
  by (cases "model_to_dict config";
      simp add: runner_defs prog_defs serializes_def Let_def config_path_of_def)+

lemma start_not_started:
  assumes "\<not> is_running r" "serializes H config" "\<not> wait_for_started H"
  shows "fst (snd (start H config mode r)) =
           Inl (RuntimeError ''Failed to start local worker subprocess.'')"
    and "snd (snd (start H config mode r)) = \<lparr>process = None, tmpdir = None\<rparr>"
  using assms
  by (cases "model_to_dict config";
      simp add: runner_defs prog_defs serializes_def Let_def config_path_of_def)+

lemma start_launches:
  "launches (fst (start H config mode r)) =
     (if \<not> is_running r \<and> serializes H config
      then [(sys_executable H, [''-u'', ''-c'', RUNNER_SCRIPT, config_path_of H, mode])] else [])"
proof (cases "is_running r")
  case True
  then show ?thesis by (simp add: start_running launches_def)
next
  case False
  show ?thesis
  proof (cases "serializes H config")
    case True
    then obtain d where "model_to_dict config = Inr d" "write_error H = None"
      by (auto simp: serializes_def)
    with False True show ?thesis
      by (simp add: start_effects launches_def)
  next
    case ns: False
    with False show ?thesis by (simp add: start_serialize_fails launches_def)
  qed
qed

lemma config_path_host0:
  "config_path_of host0 = ''/tmp/pyflowreg_session_gui_x/session_config.yaml''"
  by (simp add: config_path_of_def host0_def with_segments_def posix_str_def parse_path_def
      posix_splitroot_def format_parsed_parts_def)

lemma serializes_host0: "serializes host0 config0"
  by (simp add: serializes_def host0_def config0_def)

lemma idle_not_running: "\<not> is_running idle"
  by (simp add: is_running_def idle_def)

lemma busy_running: "is_running busy"
  by (simp add: is_running_def busy_def)

text \<open>
  Claim C4.  When the worker finishes, \<open>_on_finished\<close> emits \<open>run_finished\<close> with the
  exit code, always and as its last signal, preceded by one \<open>run_failed\<close> message exactly
  when the exit code is not zero.  It launches nothing (no retry), returns, and leaves
  the runner without process and without temporary directory.
\<close>

theorem on_finished_reports_exit_code:
  "signals (fst (on_finished exit_code r)) =
     (if exit_code \<noteq> 0
      then [RunFailed (''Local run failed with exit code '' @ str_int exit_code @ ''.''),
            RunFinished exit_code]
      else [RunFinished exit_code])
   \<and> ((\<exists>msg. RunFailed msg \<in> set (signals (fst (on_finished exit_code r)))) \<longleftrightarrow> exit_code \<noteq> 0)
   \<and> launches (fst (on_finished exit_code r)) = []
   \<and> fst (snd (on_finished exit_code r)) = Inr ()
   \<and> snd (snd (on_finished exit_code r)) = r\<lparr>tmpdir := None, process := None\<rparr>"
  by (cases "tmpdir r"; simp add: runner_defs prog_defs)

theorem on_finished_reports_exit_code_witness:
  "signals (fst (on_finished 3 busy)) = [RunFailed ''Local run failed with exit code 3.'', RunFinished 3]
   \<and> signals (fst (on_finished 0 busy)) = [RunFinished 0]
   \<and> launches (fst (on_finished 3 busy)) = []
   \<and> snd (snd (on_finished 3 busy)) = idle"
  using on_finished_reports_exit_code [of 3 busy] on_finished_reports_exit_code [of 0 busy]
  by (simp add: str_int_def str_nat.simps digit_char_def busy_def idle_def)

text \<open>
  Claim C5, as the code has it.  While a run is in progress, \<open>start\<close> raises
  \<open>RuntimeError\<close> with no effect at all: the runner is unchanged, no process is created
  and no temporary directory is allocated.  Otherwise \<open>start\<close> allocates a temporary
  directory and, when the configuration is dumped and written without error, launches
  exactly one worker; when it is not, the exception propagates and no worker is
  launched.  A launched worker that has started becomes the running process of the
  runner and \<open>start\<close> returns; if it has not started in time, \<open>start\<close> cleans up,
  keeps no process and raises \<open>RuntimeError\<close>.
\<close>

theorem start_supervises_one_process:
  "(is_running r \<longrightarrow>
      start H config mode r = ([], Inl (RuntimeError ''A local run is already in progress.''), r))
   \<and> launches (fst (start H config mode r)) =
        (if \<not> is_running r \<and> serializes H config
         then [(sys_executable H, [''-u'', ''-c'', RUNNER_SCRIPT, config_path_of H, mode])]
         else [])
   \<and> (\<not> is_running r \<and> serializes H config \<and> wait_for_started H \<longrightarrow>
        fst (snd (start H config mode r)) = Inr () \<and>
        is_running (snd (snd (start H config mode r))) \<and>
        snd (snd (start H config mode r)) =
          \<lparr>process = Some \<lparr>program = sys_executable H,
               arguments = [''-u'', ''-c'', RUNNER_SCRIPT, config_path_of H, mode],
               pstate = Running\<rparr>, tmpdir = Some (tmp_name H)\<rparr>)
   \<and> (\<not> is_running r \<and> serializes H config \<and> \<not> wait_for_started H \<longrightarrow>
        fst (snd (start H config mode r)) =
          Inl (RuntimeError ''Failed to start local worker subprocess.'') \<and>
        snd (snd (start H config mode r)) = \<lparr>process = None, tmpdir = None\<rparr>)
   \<and> (\<not> is_running r \<and> \<not> serializes H config \<longrightarrow>
        (\<exists>e. fst (snd (start H config mode r)) = Inl e) \<and>
        snd (snd (start H config mode r)) = r\<lparr>tmpdir := Some (tmp_name H)\<rparr>)"
  by (simp add: start_running start_launches start_started start_not_started
      start_serialize_fails is_running_def)

theorem start_supervises_one_process_witness:
  "is_running busy \<and> \<not> is_running idle \<and> serializes host0 config0 \<and> wait_for_started host0
   \<and> start host0 config0 ''all'' busy =
       ([], Inl (RuntimeError ''A local run is already in progress.''), busy)
   \<and> launches (fst (start host0 config0 ''all'' idle)) =
       [(''/usr/bin/python3'',
         [''-u'', ''-c'', RUNNER_SCRIPT, ''/tmp/pyflowreg_session_gui_x/session_config.yaml'', ''all''])]
   \<and> is_running (snd (snd (start host0 config0 ''all'' idle)))"
proof -
  have exe: "sys_executable host0 = ''/usr/bin/python3''" and w: "wait_for_started host0"
    by (simp_all add: host0_def)
  show ?thesis
    using start_supervises_one_process [of busy host0 config0 "''all''"]
      start_supervises_one_process [of idle host0 config0 "''all''"]
      busy_running idle_not_running serializes_host0
    by (simp add: exe w config_path_host0) (simp add: is_running_def)
qed

text \<open>
  The claim C5 as stated fails: a runner that is not running may launch no worker.
  With a worker that does not start in time, \<open>start\<close> raises and keeps no process; with
  a configuration object that cannot be dumped, it raises before a process exists.
\<close>

theorem start_may_launch_nothing:
  "\<not> is_running idle
   \<and> fst (snd (start (host0\<lparr>wait_for_started := False\<rparr>) config0 ''all'' idle)) =
       Inl (RuntimeError ''Failed to start local worker subprocess.'')
   \<and> snd (snd (start (host0\<lparr>wait_for_started := False\<rparr>) config0 ''all'' idle)) = idle
   \<and> start host0 NoDict ''all'' idle =
       ([MkTmpDir ''/tmp/pyflowreg_session_gui_x''], Inl TypeError,
        \<lparr>process = None, tmpdir = Some ''/tmp/pyflowreg_session_gui_x''\<rparr>)
   \<and> launches (fst (start host0 NoDict ''all'' idle)) = []"
proof -
  have s: "serializes (host0\<lparr>wait_for_started := False\<rparr>) config0"
    by (simp add: serializes_def host0_def config0_def)
  have w: "\<not> wait_for_started (host0\<lparr>wait_for_started := False\<rparr>)" by simp
  have n: "start host0 NoDict ''all'' idle =
       ([MkTmpDir ''/tmp/pyflowreg_session_gui_x''], Inl TypeError,
        \<lparr>process = None, tmpdir = Some ''/tmp/pyflowreg_session_gui_x''\<rparr>)"
    by (simp add: runner_defs prog_defs idle_def is_running_def host0_def Let_def)
  show ?thesis
    using start_not_started [OF idle_not_running s w, of "''all''"] idle_not_running n
    by (simp add: idle_def launches_def)
qed

text \<open>
  Claim C7.  Whenever \<open>start\<close> launches the worker, the command line is the interpreter
  with \<open>-u\<close>, \<open>-c\<close>, the runner script and then, as the two trailing arguments, the path of
  the configuration file that this call has written and the run mode.  The interpreter
  hands them to the script as \<open>sys.argv[1]\<close> and \<open>sys.argv[2]\<close>, and the script loads the
  configuration from the first and dispatches on the second.
\<close>

theorem start_invocation_arguments:
  assumes "(prog, args) \<in> set (launches (fst (start H config mode r)))"
  shows "args = [''-u'', ''-c'', RUNNER_SCRIPT, config_path_of H, mode]
    \<and> drop (length args - 2) args = [config_path_of H, mode]
    \<and> (\<exists>data. WriteYaml (config_path_of H) data \<in> set (fst (start H config mode r)))
    \<and> (\<exists>argv. python_argv args = Some (RUNNER_SCRIPT, argv)
          \<and> argv ! 1 = config_path_of H \<and> argv ! 2 = mode
          \<and> main L argv = run_mode L (config_path_of H) mode)"
proof -
  from assms have nr: "\<not> is_running r" and ser: "serializes H config"
    and args: "args = [''-u'', ''-c'', RUNNER_SCRIPT, config_path_of H, mode]"
    by (auto simp: start_launches split: if_splits)
  from ser obtain d where d: "model_to_dict config = Inr d" "write_error H = None"
    by (auto simp: serializes_def)
  have w: "WriteYaml (config_path_of H) (yaml_data Posix d True) \<in> set (fst (start H config mode r))"
    by (simp add: start_effects [OF nr d])
  have py: "python_argv args = Some (RUNNER_SCRIPT, [''-c'', config_path_of H, mode])"
    by (simp add: args)
  show ?thesis
    using args w py by (auto simp: main_argv)
qed

theorem start_invocation_arguments_witness:
  "(''/usr/bin/python3'',
      [''-u'', ''-c'', RUNNER_SCRIPT, ''/tmp/pyflowreg_session_gui_x/session_config.yaml'', ''stage2''])
     \<in> set (launches (fst (start host0 config0 ''stage2'' idle)))
   \<and> python_argv
        [''-u'', ''-c'', RUNNER_SCRIPT, ''/tmp/pyflowreg_session_gui_x/session_config.yaml'', ''stage2'']
      = Some (RUNNER_SCRIPT, [''-c'', ''/tmp/pyflowreg_session_gui_x/session_config.yaml'', ''stage2''])
   \<and> (\<exists>data. WriteYaml ''/tmp/pyflowreg_session_gui_x/session_config.yaml'' data
         \<in> set (fst (start host0 config0 ''stage2'' idle)))"
proof -
  have l: "(''/usr/bin/python3'',
      [''-u'', ''-c'', RUNNER_SCRIPT, ''/tmp/pyflowreg_session_gui_x/session_config.yaml'', ''stage2''])
     \<in> set (launches (fst (start host0 config0 ''stage2'' idle)))"
    by (simp add: start_launches idle_not_running serializes_host0 config_path_host0)
      (simp add: host0_def)
  from start_invocation_arguments [OF l, where L = lib0] l show ?thesis
    by (simp add: config_path_host0)
qed

subsection \<open>The form: dispatch\<close>

lemma forget_name_setter:
  "map_prod forget_name id (setter X v e) = setter X v (forget_name e)"
  by (cases e) (auto split: sum.splits pyval.splits)

lemma forget_name_set_default:
  "map_sum id forget_name (set_default X d r e) = set_default X d r (forget_name e)"
proof (cases d)
  case None
  then show ?thesis by (cases e; cases r) (simp_all add: set_default_def)
next
  case (Some v)
  obtain e' r' where s: "setter X v e = (e', r')" by (cases "setter X v e")
  with forget_name_setter [of X v e] have "setter X v (forget_name e) = (forget_name e', r')"
    by simp
  with s Some show ?thesis by (cases r') (simp_all add: set_default_def)
qed

lemma create_editor_flow_options:
  "create_editor X ''flow_options'' ann d =
     set_default X d True (FlowOptionsEditor InlineJSON [] [])"
  by (simp add: create_editor_def split: prod.splits)

lemma create_editor_path_field:
  "n \<in> set PATH_FIELD_NAMES \<Longrightarrow> create_editor X n ann d =
     set_default X d False (PathPickerWidget (n \<noteq> ''center'') (snd (unwrap_optional ann)) [])"
  by (auto simp: create_editor_def PATH_FIELD_NAMES_def split: prod.splits)

lemma create_editor_forget:
  assumes "n \<notin> set NAMED_FIELDS"
  shows "map_sum id forget_name (create_editor X n ann d) =
     (case unwrap_optional ann of
        (base, optional) \<Rightarrow>
          if base = ABool then set_default X d False (QCheckBox False)
          else if base = AInt then set_default X d False (QSpinBox 0)
          else if base = AFloat then set_default X d False (QDoubleSpinBox 0)
          else (case base of
                  ALiteral options \<Rightarrow> set_default X d True (LiteralCombo options (fresh_combo options))
                | AEnum members \<Rightarrow> set_default X d True (EnumCombo members (fresh_combo members))
                | _ \<Rightarrow>
                    if base = ADict \<or> annotation_has_type base ADict
                    then set_default X d True (JsonTextEdit [] optional [])
                    else if base \<in> {AStr, APath} \<or> annotation_has_type base APath
                    then set_default X d False (TextLineEdit optional [])
                    else set_default X d False (FallbackLineEdit [])))"
  using assms
  by (cases "unwrap_optional ann"; cases "fst (unwrap_optional ann)")
    (auto simp: create_editor_def NAMED_FIELDS_def forget_name_set_default)

lemma getter_forget_name: "getter X e = Inr v \<longleftrightarrow> getter X (forget_name e) = Inr v"
  by (cases e) (auto simp: Let_def split: option.splits pyval.splits)

lemma resetter_forget_name: "forget_name (resetter X e) = resetter X (forget_name e)"
  by (cases e) auto

text \<open>
  Claim C3, as the code has it.  For every field whose name is none of \<open>flow_options\<close>,
  \<open>root\<close>, \<open>output_root\<close>, \<open>final_results\<close> and \<open>center\<close>, the editor is determined by the
  annotation and the default alone, through the dispatch bool, int, float, Literal,
  Enum, dictionary, string or path, anything else; the field name is kept only for the
  messages of the dictionary editor, and the closures do not depend on it otherwise.
  A field named \<open>flow_options\<close> gets the flow-options editor and a field named \<open>root\<close>,
  \<open>output_root\<close>, \<open>final_results\<close> or \<open>center\<close> a path picker, whatever the annotation.
\<close>

theorem editor_by_annotation:
  assumes "n1 \<notin> set NAMED_FIELDS" and "n2 \<notin> set NAMED_FIELDS"
  shows "map_sum id forget_name (create_editor X n1 ann d) =
           map_sum id forget_name (create_editor X n2 ann d)
    \<and> map_sum id forget_name (create_editor X n1 ann d) =
        (case unwrap_optional ann of
           (base, optional) \<Rightarrow>
             if base = ABool then set_default X d False (QCheckBox False)
             else if base = AInt then set_default X d False (QSpinBox 0)
             else if base = AFloat then set_default X d False (QDoubleSpinBox 0)
             else (case base of
                     ALiteral options \<Rightarrow>
                       set_default X d True (LiteralCombo options (fresh_combo options))
                   | AEnum members \<Rightarrow>
                       set_default X d True (EnumCombo members (fresh_combo members))
                   | _ \<Rightarrow>
                       if base = ADict \<or> annotation_has_type base ADict
                       then set_default X d True (JsonTextEdit [] optional [])
                       else if base \<in> {AStr, APath} \<or> annotation_has_type base APath
                       then set_default X d False (TextLineEdit optional [])
                       else set_default X d False (FallbackLineEdit [])))
    \<and> (getter X e = Inr v \<longleftrightarrow> getter X (forget_name e) = Inr v)
    \<and> map_prod forget_name id (setter X v e) = setter X v (forget_name e)
    \<and> forget_name (resetter X e) = resetter X (forget_name e)
    \<and> create_editor X ''flow_options'' ann d =
          set_default X d True (FlowOptionsEditor InlineJSON [] [])
    \<and> (\<forall>n \<in> set PATH_FIELD_NAMES. create_editor X n ann d =
          set_default X d False
            (PathPickerWidget (n \<noteq> ''center'') (snd (unwrap_optional ann)) []))"
proof -
  have same: "map_sum id forget_name (create_editor X n1 ann d) =
      map_sum id forget_name (create_editor X n2 ann d)"
    by (simp only: create_editor_forget [OF assms(1)] create_editor_forget [OF assms(2)])
  show ?thesis
    using same create_editor_forget [OF assms(1), of X ann d] getter_forget_name [of X e v]
      forget_name_setter [of X v e] resetter_forget_name [of X e]
      create_editor_flow_options [of X ann d] create_editor_path_field [of _ X ann d]
    by blast
qed

lemma named_fields_eval: "''pattern'' \<notin> set NAMED_FIELDS" "''count'' \<notin> set NAMED_FIELDS"
  "''params'' \<notin> set NAMED_FIELDS"
  by (simp_all add: NAMED_FIELDS_def PATH_FIELD_NAMES_def)

lemmas create_eval = create_editor_def unwrap_optional_def set_default_def PATH_FIELD_NAMES_def
  fresh_combo_def annotation_has_type.simps

lemma ext0_text:
  "line_edit_text ext0 [] = []" "plain_edit_text ext0 [] = []" "plain_edit_text ext0 ''{}'' = ''{}''"
  by (simp_all add: ext0_def)

theorem editor_by_annotation_witness:
  "''pattern'' \<notin> set NAMED_FIELDS \<and> ''count'' \<notin> set NAMED_FIELDS
   \<and> create_editor ext0 ''pattern'' (AUnion [AInt, ANoneType]) (Some (PInt 7)) = Inr (QSpinBox 7)
   \<and> create_editor ext0 ''count'' (AUnion [AInt, ANoneType]) (Some (PInt 7)) = Inr (QSpinBox 7)
   \<and> create_editor ext0 ''center'' (AUnion [AInt, ANoneType]) None =
        Inr (PathPickerWidget False True [])"
  using editor_by_annotation [OF named_fields_eval(1) named_fields_eval(2),
      where X = ext0 and ann = "AUnion [AInt, ANoneType]" and d = "Some (PInt 7)"
        and e = "QSpinBox 0" and v = "PInt 7"]
    named_fields_eval
  by (simp add: create_eval spin_set_def)

text \<open>
  The claim C3 as stated fails: two fields with the same annotation and default get
  different editors because of their names.
\<close>

theorem editor_depends_on_field_name:
  "create_editor ext0 ''center'' AStr None \<noteq> create_editor ext0 ''pattern'' AStr None
   \<and> create_editor ext0 ''center'' AStr None = Inr (PathPickerWidget False False [])
   \<and> create_editor ext0 ''pattern'' AStr None = Inr (TextLineEdit False [])
   \<and> create_editor ext0 ''root'' AInt None = Inr (PathPickerWidget True False [])
   \<and> create_editor ext0 ''count'' AInt None = Inr (QSpinBox 0)
   \<and> create_editor ext0 ''flow_options'' AStr None = Inr (FlowOptionsEditor InlineJSON ''{}'' [])"
  by (simp add: create_eval ext0_text)

subsection \<open>The form: dictionary fields\<close>

lemma has_dict_base:
  assumes "base = ADict \<or> annotation_has_type base ADict"
  shows "base \<noteq> ABool" "base \<noteq> AInt" "base \<noteq> AFloat"
    "\<And>options. base \<noteq> ALiteral options" "\<And>members. base \<noteq> AEnum members"
  using assms by (auto simp: annotation_has_type.simps unwrap_optional_def)

lemma setter_json:
  "setter X v (JsonTextEdit n optional t) = (e, r) \<Longrightarrow> \<exists>t'. e = JsonTextEdit n optional t'"
  by (auto split: sum.splits if_splits)

lemma set_default_json:
  "set_default X d r (JsonTextEdit n optional t) = Inr e \<Longrightarrow> \<exists>t'. e = JsonTextEdit n optional t'"
proof (cases d)
  case None
  assume "set_default X d r (JsonTextEdit n optional t) = Inr e"
  with None show ?thesis by (cases r) (auto simp: set_default_def)
next
  case (Some v)
  assume a: "set_default X d r (JsonTextEdit n optional t) = Inr e"
  obtain e' r' where s: "setter X v (JsonTextEdit n optional t) = (e', r')"
    by (cases "setter X v (JsonTextEdit n optional t)")
  with a Some have "e' = e" by (cases r') (simp_all add: set_default_def)
  with setter_json [OF s] show ?thesis by simp
qed

lemma create_editor_dict:
  assumes "field_name \<notin> set NAMED_FIELDS"
    and "unwrap_optional annotation = (base, optional)"
    and "base = ADict \<or> annotation_has_type base ADict"
  shows "create_editor X field_name annotation dflt =
           set_default X dflt True (JsonTextEdit field_name optional [])"
  using assms has_dict_base [OF assms(3)]
  by (cases base) (auto simp: create_editor_def NAMED_FIELDS_def)

text \<open>
  Claim C10, as the code has it.  A field that is not handled by name and whose
  annotation, with a single \<open>Optional\<close> removed, is \<open>dict\<close> or a union containing
  \<open>dict\<close>, gets the JSON text editor with the flag \<open>optional\<close> of the annotation (true
  for a union of exactly one type with \<open>None\<close>).  On text that \<open>strip\<close> leaves empty its
  getter returns \<open>None\<close> if the field is optional and the empty dictionary if not; on
  other text it returns the parsed value if that is a dictionary, and raises
  \<open>ValueError\<close> if the text is not valid JSON or parses to something else.
  \<open>FlowOptionsEditor.get_value\<close> in inline mode does the same, except that blank text
  always gives the empty dictionary.  A field named \<open>root\<close>, \<open>output_root\<close>,
  \<open>final_results\<close> or \<open>center\<close> gets the path picker whatever its annotation, and the getter
  of a path picker returns the stripped text, or \<open>None\<close> for a blank text of an optional
  field, and never parses.
\<close>

theorem dict_getter_cases:
  assumes "field_name \<notin> set NAMED_FIELDS"
    and "unwrap_optional annotation = (base, optional)"
    and "base = ADict \<or> annotation_has_type base ADict"
    and "create_editor X field_name annotation dflt = Inr e"
  shows "(\<exists>t. e = JsonTextEdit field_name optional t)
    \<and> getter X (JsonTextEdit field_name optional text) =
        (if strip text = [] then Inr (if optional then PNone else PDict [])
         else (case json_loads X (strip text) of
                 None \<Rightarrow> Inl (ValueError (InvalidJSONFor field_name))
               | Some (PDict d) \<Rightarrow> Inr (PDict d)
               | Some _ \<Rightarrow> Inl (ValueError (ExpectsJSONObject field_name))))
    \<and> getter X (FlowOptionsEditor InlineJSON text file) =
        (if strip text = [] then Inr (PDict [])
         else (case json_loads X (strip text) of
                 None \<Rightarrow> Inl (ValueError InvalidFlowOptionsJSON)
               | Some (PDict d) \<Rightarrow> Inr (PDict d)
               | Some _ \<Rightarrow> Inl (ValueError FlowOptionsMustBeObject)))
    \<and> (\<forall>n \<in> set PATH_FIELD_NAMES. create_editor X n annotation dflt =
          set_default X dflt False (PathPickerWidget (n \<noteq> ''center'') optional []))
    \<and> getter X (PathPickerWidget pick_directory opt text) =
        Inr (if opt \<and> strip text = [] then PNone else PStr (strip text))"
proof -
  from assms have "set_default X dflt True (JsonTextEdit field_name optional []) = Inr e"
    by (simp add: create_editor_dict)
  then have shape: "\<exists>t. e = JsonTextEdit field_name optional t" by (rule set_default_json)
  have g1: "getter X (JsonTextEdit field_name optional text) =
        (if strip text = [] then Inr (if optional then PNone else PDict [])
         else (case json_loads X (strip text) of
                 None \<Rightarrow> Inl (ValueError (InvalidJSONFor field_name))
               | Some (PDict d) \<Rightarrow> Inr (PDict d)
               | Some _ \<Rightarrow> Inl (ValueError (ExpectsJSONObject field_name))))"
    by (auto simp: Let_def split: option.splits pyval.splits)
  have g2: "getter X (FlowOptionsEditor InlineJSON text file) =
        (if strip text = [] then Inr (PDict [])
         else (case json_loads X (strip text) of
                 None \<Rightarrow> Inl (ValueError InvalidFlowOptionsJSON)
               | Some (PDict d) \<Rightarrow> Inr (PDict d)
               | Some _ \<Rightarrow> Inl (ValueError FlowOptionsMustBeObject)))"
    by (auto simp: Let_def split: option.splits pyval.splits)
  have p1: "\<forall>n \<in> set PATH_FIELD_NAMES. create_editor X n annotation dflt =
          set_default X dflt False (PathPickerWidget (n \<noteq> ''center'') optional [])"
    using assms(2) by (simp add: create_editor_path_field)
  have p2: "getter X (PathPickerWidget pick_directory opt text) =
        Inr (if opt \<and> strip text = [] then PNone else PStr (strip text))"
    by (simp add: text_value_def Let_def)
  from shape g1 g2 p1 p2 show ?thesis by blast
qed

lemma strip_eval:
  "strip '' {} '' = ''{}''" "strip ''  '' = []" "strip ''[]'' = ''[]''" "strip ''{'' = ''{''"
  "strip [CHR 0x85] = []" "strip [CHR 0xA0, CHR ''x'', CHR 0xA0] = ''x''"
  by (simp_all add: strip_def is_space_def)

theorem dict_getter_cases_witness:
  "''params'' \<notin> set NAMED_FIELDS
   \<and> unwrap_optional (AUnion [ADict, ANoneType]) = (ADict, True)
   \<and> create_editor ext0 ''params'' (AUnion [ADict, ANoneType]) None =
        Inr (JsonTextEdit ''params'' True [])
   \<and> getter ext0 (JsonTextEdit ''params'' True ''  '') = Inr PNone
   \<and> getter ext0 (JsonTextEdit ''params'' True [CHR 0x85]) = Inr PNone
   \<and> getter ext0 (JsonTextEdit ''params'' True '' {} '') = Inr (PDict [])
   \<and> getter ext0 (JsonTextEdit ''params'' True ''[]'') =
        Inl (ValueError (ExpectsJSONObject ''params''))
   \<and> getter ext0 (JsonTextEdit ''params'' True ''{'') =
        Inl (ValueError (InvalidJSONFor ''params''))
   \<and> getter ext0 (FlowOptionsEditor InlineJSON ''  '' []) = Inr (PDict [])"
proof -
  have u: "unwrap_optional (AUnion [ADict, ANoneType]) = (ADict, True)"
    by (simp add: unwrap_optional_def)
  have b: "ADict = ADict \<or> annotation_has_type ADict ADict" by simp
  have c: "create_editor ext0 ''params'' (AUnion [ADict, ANoneType]) None =
      Inr (JsonTextEdit ''params'' True [])"
    by (simp add: create_eval ext0_text)
  note t = dict_getter_cases [OF named_fields_eval(3) u b c]
  show ?thesis
    using t [of "''  ''" "[]"] t [of "'' {} ''"] t [of "''[]''"] t [of "''{''"]
      t [of "[CHR 0x85]"] u c named_fields_eval(3)
    by (simp add: strip_eval ext0_def)
qed

text \<open>
  The claim C10 as stated fails for a dictionary field that is handled by name: a field
  \<open>center\<close> annotated \<open>Optional[dict]\<close> gets the path picker, whose getter returns the
  text, be it a JSON object or invalid JSON, and never raises.
\<close>

theorem dict_field_handled_by_name:
  "unwrap_optional (AUnion [ADict, ANoneType]) = (ADict, True)
   \<and> create_editor ext0 ''center'' (AUnion [ADict, ANoneType]) None =
        Inr (PathPickerWidget False True [])
   \<and> getter ext0 (PathPickerWidget False True ''{}'') = Inr (PStr ''{}'')
   \<and> getter ext0 (PathPickerWidget False True ''{'') = Inr (PStr ''{'')"
  by (simp add: create_eval text_value_def strip_def is_space_def Let_def)

subsection \<open>The form: loading and reading back\<close>

lemma first_index_bound: "first_index P xs = Some i \<Longrightarrow> i < length xs"
  by (induction xs arbitrary: i) (auto split: if_splits)

lemma strip_Nil [simp]: "strip [] = []"
  by (simp add: strip_def)

lemma path_str_not_empty: "path_str fl p \<noteq> []"
  by (cases fl) (auto simp: path_str_def posix_str_def win_str_def Let_def split: prod.splits)

lemma keeps_set_get:
  assumes "keeps X e v"
  shows "\<exists>e'. setter X v e = (e', None) \<and> getter X e' = Inr (as_form_value X v)
           \<and> keeps X e' = keeps X e"
proof (cases e)
  case (FlowOptionsEditor mode inline ftext)
  with assms show ?thesis
    by (cases v)
      (auto simp: json_kept_def string_kept_def line_kept_def as_form_value_def Let_def
        fun_eq_iff split: sum.splits)
next
  case (PathPickerWidget pd optional tx)
  with assms show ?thesis
    by (cases v)
      (auto simp: text_kept_def string_kept_def line_kept_def text_value_def line_text_def
        as_form_value_def path_str_not_empty Let_def fun_eq_iff)
next
  case (QCheckBox b)
  with assms show ?thesis by (cases v) (auto simp: as_form_value_def fun_eq_iff)
next
  case (QSpinBox i)
  with assms show ?thesis by (cases v) (auto simp: spin_set_def as_form_value_def fun_eq_iff)
next
  case (QDoubleSpinBox f)
  with assms show ?thesis by (cases v) (auto simp: as_form_value_def fun_eq_iff)
next
  case (LiteralCombo items current)
  with assms show ?thesis
    by (auto simp: item_kept_def select_item_def current_data_def fun_eq_iff
        split: option.splits dest: first_index_bound)
next
  case (EnumCombo items current)
  with assms show ?thesis
    by (auto simp: item_kept_def select_item_def current_data_def fun_eq_iff
        split: option.splits dest: first_index_bound)
next
  case (JsonTextEdit n optional tx)
  with assms show ?thesis
    by (cases v)
      (auto simp: json_kept_def as_form_value_def Let_def fun_eq_iff split: sum.splits if_splits)
next
  case (TextLineEdit optional tx)
  with assms show ?thesis
    by (cases v)
      (auto simp: text_kept_def string_kept_def line_kept_def text_value_def line_text_def
        as_form_value_def path_str_not_empty Let_def fun_eq_iff)
next
  case (FallbackLineEdit tx)
  with assms show ?thesis
    by (cases v)
      (auto simp: string_kept_def line_kept_def line_text_def as_form_value_def fun_eq_iff)
qed

text \<open>What \<open>set_form_data\<close> leaves in the form when no setter raises.\<close>

lemma set_form_data_kept:
  assumes "distinct (map fst vals)"
    and "\<And>n v b. (n, v) \<in> set vals \<Longrightarrow> map_of F n = Some b \<Longrightarrow> keeps X (editor_of b) v"
  shows "\<exists>F'. set_form_data X vals F = (F', None) \<and> map fst F' = map fst F
    \<and> (\<forall>n b'. map_of F' n = Some b' \<longrightarrow>
          (case map_of vals n of
             None \<Rightarrow> map_of F n = Some b'
           | Some v \<Rightarrow> getter X (editor_of b') = Inr (as_form_value X v)))"
  using assms
proof (induction vals arbitrary: F)
  case Nil
  then show ?case by simp
next
  case (Cons nv rest)
  obtain n v where nv: "nv = (n, v)" by (cases nv)
  from Cons.prems(1) nv have dist: "distinct (map fst rest)" and fresh: "n \<notin> fst ` set rest"
    by auto
  then have nrest: "map_of rest n = None" by (simp add: map_of_eq_None_iff)
  show ?case
  proof (cases "map_of F n")
    case None
    have "\<exists>F'. set_form_data X rest F = (F', None) \<and> map fst F' = map fst F
      \<and> (\<forall>m b'. map_of F' m = Some b' \<longrightarrow>
            (case map_of rest m of
               None \<Rightarrow> map_of F m = Some b'
             | Some w \<Rightarrow> getter X (editor_of b') = Inr (as_form_value X w)))"
      using dist Cons.prems(2) by (intro Cons.IH) (auto simp: nv)
    then obtain F' where F': "set_form_data X rest F = (F', None)" "map fst F' = map fst F"
      "\<And>m b'. map_of F' m = Some b' \<Longrightarrow>
            (case map_of rest m of
               None \<Rightarrow> map_of F m = Some b'
             | Some w \<Rightarrow> getter X (editor_of b') = Inr (as_form_value X w))"
      by blast
    have "map_of F' n = None"
      using None F'(2) by (metis map_of_eq_None_iff set_map)
    then show ?thesis
      using F' None by (auto simp: nv split: option.splits)
  next
    case (Some b)
    have "keeps X (editor_of b) v" by (rule Cons.prems(2) [of n v]) (simp_all add: nv Some)
    then obtain e where e: "setter X v (editor_of b) = (e, None)"
        "getter X e = Inr (as_form_value X v)" "keeps X e = keeps X (editor_of b)"
      using keeps_set_get by blast
    let ?F1 = "AList.update n (b\<lparr>editor_of := e\<rparr>) F"
    have look1: "map_of ?F1 m = (if m = n then Some (b\<lparr>editor_of := e\<rparr>) else map_of F m)" for m
      by (simp add: update_conv')
    have keys1: "map fst ?F1 = map fst F" using Some by (rule keys_update_present)
    have "\<exists>F'. set_form_data X rest ?F1 = (F', None) \<and> map fst F' = map fst ?F1
      \<and> (\<forall>m b'. map_of F' m = Some b' \<longrightarrow>
            (case map_of rest m of
               None \<Rightarrow> map_of ?F1 m = Some b'
             | Some w \<Rightarrow> getter X (editor_of b') = Inr (as_form_value X w)))"
    proof (intro Cons.IH dist)
      fix m w c assume mw: "(m, w) \<in> set rest" and c: "map_of ?F1 m = Some c"
      from mw fresh have "m \<noteq> n" by force
      with c have "map_of F m = Some c" by (simp add: look1)
      then show "keeps X (editor_of c) w"
        by (rule Cons.prems(2) [of m w, rotated]) (simp add: nv mw)
    qed
    then obtain F' where F': "set_form_data X rest ?F1 = (F', None)" "map fst F' = map fst ?F1"
      "\<And>m b'. map_of F' m = Some b' \<Longrightarrow>
            (case map_of rest m of
               None \<Rightarrow> map_of ?F1 m = Some b'
             | Some w \<Rightarrow> getter X (editor_of b') = Inr (as_form_value X w))"
      by blast
    have run: "set_form_data X (nv # rest) F = (F', None)"
      using Some e F'(1) by (simp add: nv)
    have "\<forall>m b'. map_of F' m = Some b' \<longrightarrow>
          (case map_of (nv # rest) m of
             None \<Rightarrow> map_of F m = Some b'
           | Some w \<Rightarrow> getter X (editor_of b') = Inr (as_form_value X w))"
    proof (intro allI impI)
      fix m b' assume m: "map_of F' m = Some b'"
      show "case map_of (nv # rest) m of
             None \<Rightarrow> map_of F m = Some b'
           | Some w \<Rightarrow> getter X (editor_of b') = Inr (as_form_value X w)"
      proof (cases "m = n")
        case True
        with F'(3) [OF m] nrest have "b' = b\<lparr>editor_of := e\<rparr>" by (simp add: look1)
        with True e show ?thesis by (simp add: nv)
      next
        case False
        with F'(3) [OF m] show ?thesis by (simp add: nv look1 split: option.splits)
      qed
    qed
    with run F'(2) keys1 show ?thesis by auto
  qed
qed

lemma get_form_data_values:
  "\<forall>nb \<in> set F. getter X (editor_of (snd nb)) = Inr (val (fst nb)) \<Longrightarrow>
     get_form_data X F = Inr (map (\<lambda>nb. (fst nb, val (fst nb))) F)"
  by (induction F) auto

lemma map_of_keyed:
  "map_of (map (\<lambda>nb. (fst nb, f (fst nb))) F) n = (if n \<in> fst ` set F then Some (f n) else None)"
  by (induction F) auto

lemma add_editors_distinct:
  "add_editors X specs B = Inr F \<Longrightarrow> distinct (map fst B) \<Longrightarrow> distinct (map fst F)"
  by (induction specs arbitrary: B) (auto simp: distinct_update split: sum.splits)

lemma form_init_distinct: "form_init X cls = Inr F \<Longrightarrow> distinct (map fst F)"
  by (auto simp: form_init_def split: sum.splits dest: add_editors_distinct)

lemma load_and_rebuild_validates:
  "load_and_rebuild X config F =
     (case load_and_read X config F of Inl e \<Rightarrow> Inl e | Inr data \<Rightarrow> model_validate X data)"
  by (auto simp: load_and_rebuild_def load_and_read_def to_session_config_def
      split: sum.splits prod.splits option.splits)

lemma round_trip_model_validates:
  "round_trip_model X cls config =
     (case round_trip X cls config of Inl e \<Rightarrow> Inl e | Inr data \<Rightarrow> model_validate X data)"
  by (auto simp: round_trip_model_def round_trip_def load_and_rebuild_validates
      split: sum.splits)

text \<open>
  Claim C2, as the code has it.  Let the form hold its editors under distinct names, in
  whatever state they are, as does the form built for a model class; and let the
  configuration dump to a dictionary that has a value for every field of the form, each
  value one that the field's editor keeps.  Then loading the configuration and reading
  the form back succeeds and gives, for every field of the form and in the order of the
  form, the value of the configuration, a path as its text; \<open>to_session_config\<close> hands
  this dictionary to the validation of the model class.
\<close>

theorem form_round_trip_kept:
  assumes names: "distinct (map fst F)"
    and dump: "model_to_dict config = Inr vals"
    and dist: "distinct (map fst vals)"
    and cover: "fst ` set F \<subseteq> fst ` set vals"
    and kept: "\<forall>nv \<in> set vals. \<forall>b. map_of F (fst nv) = Some b \<longrightarrow> keeps X (editor_of b) (snd nv)"
  shows "\<exists>data. load_and_read X config F = Inr data \<and> map fst data = map fst F
    \<and> (\<forall>n \<in> fst ` set F. map_of data n = map_option (as_form_value X) (map_of vals n))
    \<and> load_and_rebuild X config F = model_validate X data
    \<and> (form_init X cls = Inr F \<longrightarrow>
          round_trip X cls config = Inr data
          \<and> round_trip_model X cls config = model_validate X data)"
proof -
  have "\<exists>F'. set_form_data X vals F = (F', None) \<and> map fst F' = map fst F
    \<and> (\<forall>n b'. map_of F' n = Some b' \<longrightarrow>
          (case map_of vals n of
             None \<Rightarrow> map_of F n = Some b'
           | Some v \<Rightarrow> getter X (editor_of b') = Inr (as_form_value X v)))"
    using dist kept by (intro set_form_data_kept) auto
  then obtain F' where F': "set_form_data X vals F = (F', None)" "map fst F' = map fst F"
    "\<And>n b'. map_of F' n = Some b' \<Longrightarrow>
          (case map_of vals n of
             None \<Rightarrow> map_of F n = Some b'
           | Some v \<Rightarrow> getter X (editor_of b') = Inr (as_form_value X v))"
    by blast
  let ?val = "\<lambda>n. as_form_value X (the (map_of vals n))"
  have "\<forall>nb \<in> set F'. getter X (editor_of (snd nb)) = Inr (?val (fst nb))"
  proof
    fix nb assume nb: "nb \<in> set F'"
    obtain n b' where [simp]: "nb = (n, b')" by (cases nb)
    from names F'(2) have "distinct (map fst F')" by simp
    with nb have look: "map_of F' n = Some b'" by simp
    from nb have "n \<in> fst ` set F'" by force
    also have "\<dots> = fst ` set F" using F'(2) by (metis set_map)
    finally have "n \<in> fst ` set vals" using cover by blast
    then obtain v where v: "map_of vals n = Some v"
      by (metis map_of_eq_None_iff not_Some_eq)
    with F'(3) [OF look] show "getter X (editor_of (snd nb)) = Inr (?val (fst nb))" by simp
  qed
  then have got: "get_form_data X F' = Inr (map (\<lambda>nb. (fst nb, ?val (fst nb))) F')"
    by (rule get_form_data_values)
  let ?data = "map (\<lambda>nb. (fst nb, ?val (fst nb))) F'"
  have rt: "load_and_read X config F = Inr ?data"
    using dump F'(1) got by (simp add: load_and_read_def set_from_config_def)
  have keys: "map fst ?data = map fst F" using F'(2) by (simp add: comp_def)
  have vals: "\<forall>n \<in> fst ` set F. map_of ?data n = map_option (as_form_value X) (map_of vals n)"
  proof
    fix n assume n: "n \<in> fst ` set F"
    then have nF': "n \<in> fst ` set F'" using F'(2) by (metis set_map)
    from n cover obtain v where v: "map_of vals n = Some v"
      by (metis map_of_eq_None_iff not_Some_eq subsetD)
    show "map_of ?data n = map_option (as_form_value X) (map_of vals n)"
      using map_of_keyed [of ?val F' n] nF' v by simp
  qed
  have rb: "load_and_rebuild X config F = model_validate X ?data"
    by (simp add: load_and_rebuild_validates rt)
  have fresh: "form_init X cls = Inr F \<longrightarrow>
      round_trip X cls config = Inr ?data
      \<and> round_trip_model X cls config = model_validate X ?data"
    using rt rb by (simp add: round_trip_def round_trip_model_def)
  from rt keys vals rb fresh show ?thesis by blast
qed

lemmas form_eval = form_init_def iter_model_fields_def field_spec_def field_default_of_def
  create_editor_def unwrap_optional_def set_default_def PATH_FIELD_NAMES_def fresh_combo_def
  annotation_has_type.simps line_text_def spin_set_def

lemma ext0_json:
  "json_loads ext0 ''{}'' = Some (PDict [])" "json_dumps ext0 (PDict []) = Inr ''{}''"
  by (simp_all add: ext0_def)

lemma ext0_line:
  "line_edit_text ext0 ''*.tif'' = ''*.tif''" "line_edit_text ext0 ''*.tif '' = ''*.tif ''"
  "line_edit_text ext0 ''/data'' = ''/data''"
  by (simp_all add: ext0_def)

lemma ext0_flavour: "path_flavour ext0 = Posix"
  by (simp add: ext0_def)

lemma form_init_cls1: "form_init ext0 cls1 = Inr form1"
  by (simp add: cls1_def form1_def form_eval ext0_json ext0_text ext0_line ext0_flavour)

lemma strip_examples:
  "strip ''*.tif '' = ''*.tif''" "strip ''*.tif'' = ''*.tif''" "strip ''/data'' = ''/data''"
  "strip ''{}'' = ''{}''"
  by (simp_all add: strip_def is_space_def)

lemma path_str_data: "posix_str ''/data'' = ''/data''"
  by (simp add: posix_str_def parse_path_def posix_splitroot_def format_parsed_parts_def)

theorem form_round_trip_kept_witness:
  "form_init ext0 cls1 = Inr form1 \<and> distinct (map fst form1)
   \<and> model_to_dict (ModelDump values2) = Inr values2
   \<and> distinct (map fst values2) \<and> fst ` set form1 \<subseteq> fst ` set values2
   \<and> (\<exists>data. round_trip ext0 cls1 (ModelDump values2) = Inr data
         \<and> load_and_read ext0 (ModelDump values2) form1 = Inr data
         \<and> map_of data ''root'' = Some (PStr ''/data'')
         \<and> map_of data ''pattern'' = Some (PStr ''*.tif'')
         \<and> map_of data ''center'' = Some PNone
         \<and> map_of data ''flow_options'' = Some (PDict [])
         \<and> map_of data ''resume'' = Some (PBool True)
         \<and> map_of data ''iterations'' = Some (PInt 3))"
proof -
  have n: "distinct (map fst form1)" by (simp add: form1_def)
  have d: "model_to_dict (ModelDump values2) = Inr values2" by simp
  have dist: "distinct (map fst values2)" by (simp add: values2_def)
  have cover: "fst ` set form1 \<subseteq> fst ` set values2" by (simp add: form1_def values2_def)
  have kept: "\<forall>nv \<in> set values2. \<forall>b. map_of form1 (fst nv) = Some b \<longrightarrow>
      keeps ext0 (editor_of b) (snd nv)"
    by (simp add: values2_def form1_def text_kept_def string_kept_def json_kept_def
        line_kept_def strip_examples path_str_data ext0_json ext0_text ext0_line ext0_flavour)
  from form_round_trip_kept [OF n d dist cover kept, of cls1] form_init_cls1
  obtain data where data: "round_trip ext0 cls1 (ModelDump values2) = Inr data"
    "load_and_read ext0 (ModelDump values2) form1 = Inr data"
    "\<forall>n \<in> fst ` set form1. map_of data n = map_option (as_form_value ext0) (map_of values2 n)"
    by blast
  from data(3) have "map_of data ''root'' = Some (PStr ''/data'')"
    "map_of data ''pattern'' = Some (PStr ''*.tif'')"
    "map_of data ''center'' = Some PNone"
    "map_of data ''flow_options'' = Some (PDict [])"
    "map_of data ''resume'' = Some (PBool True)"
    "map_of data ''iterations'' = Some (PInt 3)"
    by (simp_all add: form1_def values2_def as_form_value_def path_str_data ext0_flavour)
  with data(1,2) form_init_cls1 n d dist cover show ?thesis by blast
qed

text \<open>
  The claim C2 as stated fails: a string comes back stripped, an empty optional string
  comes back as \<open>None\<close>, and flow options that are \<open>None\<close> come back as the empty
  dictionary.  This configuration and a different one read back as the same dictionary
  and are rebuilt to the same model.
\<close>

theorem form_round_trip_changes_values:
  "model_to_dict (ModelDump values1) =
     Inr [(''root'', PPath ''/data''), (''pattern'', PStr ''*.tif ''), (''center'', PStr []),
          (''flow_options'', PNone), (''resume'', PBool True), (''iterations'', PInt 3)]
   \<and> round_trip ext0 cls1 (ModelDump values1) =
     Inr [(''root'', PStr ''/data''), (''pattern'', PStr ''*.tif''), (''center'', PNone),
          (''flow_options'', PDict []), (''resume'', PBool True), (''iterations'', PInt 3)]
   \<and> values2 \<noteq> values1
   \<and> round_trip ext0 cls1 (ModelDump values2) = round_trip ext0 cls1 (ModelDump values1)
   \<and> round_trip_model ext0 cls1 (ModelDump values2) =
       round_trip_model ext0 cls1 (ModelDump values1)"
proof -
  have r1: "round_trip ext0 cls1 (ModelDump values1) =
     Inr [(''root'', PStr ''/data''), (''pattern'', PStr ''*.tif''), (''center'', PNone),
          (''flow_options'', PDict []), (''resume'', PBool True), (''iterations'', PInt 3)]"
    by (simp add: round_trip_def load_and_read_def form_init_cls1 set_from_config_def
        values1_def form1_def line_text_def text_value_def spin_set_def strip_examples
        path_str_data ext0_json ext0_text ext0_line ext0_flavour)
  have r2: "round_trip ext0 cls1 (ModelDump values2) =
     Inr [(''root'', PStr ''/data''), (''pattern'', PStr ''*.tif''), (''center'', PNone),
          (''flow_options'', PDict []), (''resume'', PBool True), (''iterations'', PInt 3)]"
    by (simp add: round_trip_def load_and_read_def form_init_cls1 set_from_config_def
        values2_def form1_def line_text_def text_value_def spin_set_def strip_examples
        path_str_data ext0_json ext0_text ext0_line ext0_flavour)
  have d: "values2 \<noteq> values1" by (simp add: values1_def values2_def)
  from r1 r2 d show ?thesis
    by (simp add: round_trip_model_validates) (simp add: values1_def)
qed

end
